theory Spec2Isabelle
  imports Complex_Main "HOL-Library.Multiset"
begin

section \<open>JavaScript values used by static/script.js\<close>

text \<open>
  The repository holds two generations of \<^verbatim>\<open>static/script.js\<close>: the current script and an
  older copy of it. Functions that are the same text in both are embedded once; where the
  older copy differs, its embedding carries the suffix \<open>_legacy\<close>.

  Strings are sequences of code units, here \<^typ>\<open>char\<close> (the Latin-1 range). Numbers that
  the script reads with \<^verbatim>\<open>parseInt\<close> are integers or \<^verbatim>\<open>NaN\<close>; amounts computed by the server
  are rationals (every finite double is one, and comparing or subtracting two doubles
  gives the sign of the exact difference).
\<close>

datatype jsnum = NaN | Num int

text \<open>White space and line terminators, as \<^verbatim>\<open>String.prototype.trim\<close> and \<^verbatim>\<open>parseInt\<close> skip them.\<close>

definition isWhiteSpace :: "char \<Rightarrow> bool" where
  "isWhiteSpace c = (of_char c \<in> {9, 10, 11, 12, 13, 32, 160 :: nat})"

definition trim :: "string \<Rightarrow> string" where
  "trim s = rev (dropWhile isWhiteSpace (rev (dropWhile isWhiteSpace s)))"

text \<open>The regular expression class \<^verbatim>\<open>\d\<close>: the ten ASCII digits.\<close>

definition isDecimalDigit :: "char \<Rightarrow> bool" where
  "isDecimalDigit c = (48 \<le> (of_char c :: nat) \<and> (of_char c :: nat) \<le> 57)"

text \<open>The value of a character as a digit of a radix up to 16 (\<^verbatim>\<open>parseInt\<close> reads 10 and 16).\<close>

definition digitValue :: "char \<Rightarrow> nat option" where
  "digitValue c =
     (let k = (of_char c :: nat) in
      if 48 \<le> k \<and> k \<le> 57 then Some (k - 48)
      else if 97 \<le> k \<and> k \<le> 102 then Some (k - 87)
      else if 65 \<le> k \<and> k \<le> 70 then Some (k - 55)
      else None)"

definition isRadixDigit :: "nat \<Rightarrow> char \<Rightarrow> bool" where
  "isRadixDigit R c = (case digitValue c of Some v \<Rightarrow> v < R | None \<Rightarrow> False)"

definition mathValue :: "nat \<Rightarrow> string \<Rightarrow> int" where
  "mathValue R z =
     foldl (\<lambda>acc c. acc * int R + (case digitValue c of Some v \<Rightarrow> int v | None \<Rightarrow> 0)) 0 z"

text \<open>
  \<^verbatim>\<open>parseInt(str)\<close> with no radix argument: leading white space is skipped, a sign is read,
  a prefix \<^verbatim>\<open>0x\<close> or \<^verbatim>\<open>0X\<close> selects radix 16, the longest run of digits is the numeral, and
  an empty run gives \<^verbatim>\<open>NaN\<close>. The numeral's value is kept exact; JavaScript rounds it to a
  double, which is the same number up to \<open>2^53\<close> and is monotone beyond.
\<close>

definition parseInt :: "string \<Rightarrow> jsnum" where
  "parseInt str =
     (let s = dropWhile isWhiteSpace str;
          sign = (if s \<noteq> [] \<and> hd s = CHR ''-'' then - 1 else 1 :: int);
          s1 = (if s \<noteq> [] \<and> (hd s = CHR ''+'' \<or> hd s = CHR ''-'') then tl s else s);
          hex = (take 2 s1 = ''0x'' \<or> take 2 s1 = ''0X'');
          R = (if hex then 16 else 10 :: nat);
          s2 = (if hex then drop 2 s1 else s1);
          z = takeWhile (isRadixDigit R) s2
      in if z = [] then NaN else Num (sign * mathValue R z))"

text \<open>Decimal digits of a natural number, most significant first.\<close>

definition digitChar :: "nat \<Rightarrow> char" where
  "digitChar d = char_of (48 + d)"

fun digits :: "nat \<Rightarrow> string" where
  "digits n = (if n < 10 then [digitChar n] else digits (n div 10) @ [digitChar (n mod 10)])"

text \<open>\<^verbatim>\<open>String(x)\<close> for a number that is an integer below \<open>10^21\<close> in size, or \<^verbatim>\<open>NaN\<close>.\<close>

definition intToString :: "int \<Rightarrow> string" where
  "intToString i = (if i < 0 then CHR ''-'' # digits (nat (- i)) else digits (nat i))"

fun numToString :: "jsnum \<Rightarrow> string" where
  "numToString NaN = ''NaN''"
| "numToString (Num i) = intToString i"

text \<open>\<^verbatim>\<open>Math.round\<close>: the nearest integer, a tie going up.\<close>

definition Math_round :: "rat \<Rightarrow> int" where
  "Math_round x = \<lfloor>x + 1 / 2\<rfloor>"

text \<open>The operator \<^verbatim>\<open>||\<close> on a string that may be undefined: the empty string is falsy too.\<close>

fun strOr :: "string option \<Rightarrow> string \<Rightarrow> string" where
  "strOr None d = d"
| "strOr (Some s) d = (if s = [] then d else s)"

subsection \<open>Number.prototype.toLocaleString\<close>

text \<open>
  \<^verbatim>\<open>toLocaleString\<close> is the platform's function (ECMA-402 over the CLDR tables), not
  code of the repository; it is written out here as far as the script uses it. For an
  integer and the three locales the script names it writes the decimal digits in groups of
  three from the right, the groups separated by the locale's grouping separator: a comma
  for \<^verbatim>\<open>en-US\<close>, a full stop for \<^verbatim>\<open>de-DE\<close> and \<^verbatim>\<open>it-IT\<close>. A locale groups only numerals of
  at least \<open>3 + minimumGroupingDigits\<close> digits; that table entry, and the formatting under
  the browser's default locale (which the older script uses), are parameters of the
  platform. A negative integer is written with a leading minus sign. So is the text
  written for a number that is not finite: \<open>nonFiniteString x\<close> is what the platform writes
  for the quotient of \<open>x\<close> by zero (an infinity with the sign of \<open>x\<close>, or \<^verbatim>\<open>NaN\<close> when \<open>x\<close> is
  zero).
\<close>

datatype localeTag = en_US | de_DE | it_IT

record platform =
  minimumGroupingDigits :: "localeTag \<Rightarrow> nat"
  defaultLocaleString :: "int \<Rightarrow> string"
  nonFiniteString :: "rat \<Rightarrow> string"

fun groupSeparator :: "localeTag \<Rightarrow> string" where
  "groupSeparator en_US = '',''"
| "groupSeparator de_DE = ''.''"
| "groupSeparator it_IT = ''.''"

text \<open>Grouping on the reversed digits: after every third digit that has a successor.\<close>

fun groupRev :: "string \<Rightarrow> string \<Rightarrow> string" where
  "groupRev sep (a # b # c # d # rest) = a # b # c # (rev sep @ groupRev sep (d # rest))"
| "groupRev sep ds = ds"

definition grouped :: "platform \<Rightarrow> localeTag \<Rightarrow> string \<Rightarrow> string" where
  "grouped pf loc ds =
     (if length ds \<ge> 3 + minimumGroupingDigits pf loc
      then rev (groupRev (groupSeparator loc) (rev ds)) else ds)"

definition toLocaleString :: "platform \<Rightarrow> localeTag \<Rightarrow> int \<Rightarrow> string" where
  "toLocaleString pf loc i =
     (if i < 0 then CHR ''-'' # grouped pf loc (digits (nat (- i)))
      else grouped pf loc (digits (nat i)))"


section \<open>Application state\<close>

text \<open>
  A member id is a string (the current script draws a UUID) or a number (the older script
  adds a random number to the clock). The script compares ids with \<^verbatim>\<open>===\<close> and \<^verbatim>\<open>!==\<close>:
  values of different types are never equal, and \<^verbatim>\<open>NaN\<close> equals nothing.
\<close>

datatype jsid = IdStr string | IdNum jsnum

fun strictEq :: "jsid \<Rightarrow> jsid \<Rightarrow> bool" where
  "strictEq (IdStr a) (IdStr b) = (a = b)"
| "strictEq (IdNum (Num a)) (IdNum (Num b)) = (a = b)"
| "strictEq _ _ = False"

text \<open>The comparison \<^verbatim>\<open><\<close> on numbers: false as soon as an operand is \<^verbatim>\<open>NaN\<close>.\<close>

fun jsLess :: "jsnum \<Rightarrow> jsnum \<Rightarrow> bool" where
  "jsLess (Num a) (Num b) = (a < b)"
| "jsLess _ _ = False"

record member =
  name :: string
  isSalvager :: bool
  id' :: jsid

record site =
  id' :: int
  name :: string
  level :: jsnum
  participants :: "jsid list"

text \<open>
  \<^verbatim>\<open>appData.config\<close>. An object's property keys are strings (\<^verbatim>\<open>levelValues[i]\<close> and
  \<^verbatim>\<open>levelValues[String(i)]\<close> are one property), so the two level tables are maps from the
  key's text. \<open>levelNames\<close>, \<open>currency\<close> and \<open>numberFormat\<close> may be absent;
  \<open>salvagerPercent\<close> is the result of \<^verbatim>\<open>parseFloat\<close>, \<open>None\<close> standing for \<^verbatim>\<open>NaN\<close>.
\<close>

record config =
  levelValues :: "string \<rightharpoonup> int"
  levelNames :: "(string \<rightharpoonup> string) option"
  hasSalvager :: bool
  salvagerPercent :: "rat option"
  currency :: "string option"
  autoCalculate :: bool
  numberFormat :: "string option"

record ('c, 'm, 's) appData =
  config :: 'c
  members :: 'm
  sites :: 's

type_synonym appState = "(config, member list, site list) appData"

text \<open>
  What a handler does besides changing \<^verbatim>\<open>appData\<close>: the dialogs it opens, the messages it
  shows, and whether it calls \<^verbatim>\<open>saveData()\<close>, which posts the document to the server.
  Errors raised by the engine (their message text is the engine's) are kept as values.
\<close>

datatype jserror = Error string | TypeError | SyntaxError

datatype effect =
    Alert string
  | ShowMessage string string
  | SaveData
  | AlertImportError jserror

section \<open>Number formatting helpers\<close>

text \<open>
  \<^verbatim>\<open>formatNumber(num, format = null)\<close>, on a number given exactly. The label \<^verbatim>\<open>'space'\<close>
  selects \<^verbatim>\<open>de-DE\<close> and \<^verbatim>\<open>'dot'\<close> selects \<^verbatim>\<open>it-IT\<close>; anything else is \<^verbatim>\<open>en-US\<close>.
\<close>

definition formatNumber :: "platform \<Rightarrow> config \<Rightarrow> rat \<Rightarrow> string option \<Rightarrow> string" where
  "formatNumber pf cfg num format =
     (let fmt = strOr format (strOr (numberFormat cfg) ''comma'');
          num_int = Math_round num
      in if fmt = ''space'' then toLocaleString pf de_DE num_int
         else if fmt = ''dot'' then toLocaleString pf it_IT num_int
         else toLocaleString pf en_US num_int)"

text \<open>
  \<^verbatim>\<open>parseFormattedNumber(str)\<close>: every character that is not a digit is deleted, the rest
  is read by \<^verbatim>\<open>parseInt\<close>, and \<^verbatim>\<open>NaN\<close> or zero become \<open>0\<close> (the operator \<^verbatim>\<open>|| 0\<close>).
\<close>

definition parseFormattedNumber :: "string \<Rightarrow> int" where
  "parseFormattedNumber str =
     (if str = [] then 0
      else case parseInt (filter isDecimalDigit str) of
             NaN \<Rightarrow> 0
           | Num v \<Rightarrow> (if v = 0 then 0 else v))"

section \<open>Roster\<close>

text \<open>The separator \<^verbatim>\<open>/[\n,]+/\<close> of \<^verbatim>\<open>raw.split\<close>: a maximal run of newlines and commas.\<close>

definition isDelimiter :: "char \<Rightarrow> bool" where
  "isDelimiter c = (c = CHR 0x0A \<or> c = CHR '','')"

function splitDelimiters :: "string \<Rightarrow> string list" where
  "splitDelimiters s =
     (let piece = takeWhile (\<lambda>c. \<not> isDelimiter c) s;
          rest = dropWhile (\<lambda>c. \<not> isDelimiter c) s
      in if rest = [] then [piece]
         else piece # splitDelimiters (dropWhile isDelimiter rest))"
  by pat_completeness auto
termination
proof (relation "measure length")
  show "wf (measure length)" by simp
next
  fix s :: string and piece rest
  assume rest: "rest = dropWhile (\<lambda>c. \<not> isDelimiter c) s" and ne: "rest \<noteq> []"
  from ne obtain c cs where r: "rest = c # cs" by (cases rest) auto
  with rest have "isDelimiter c" by (metis hd_dropWhile list.sel(1) list.distinct(1))
  then have "length (dropWhile isDelimiter rest) \<le> length cs"
    using r by (simp add: length_dropWhile_le)
  moreover have "length rest \<le> length s" using rest by (simp add: length_dropWhile_le)
  ultimately show "(dropWhile isDelimiter rest, s) \<in> measure length" using r by simp
qed

text \<open>
  \<^verbatim>\<open>addMember(evt)\<close>. \<open>raw\<close> is the text of the name field, \<open>isSalvager'\<close> the state of the
  check box, and \<open>generateId k\<close> the id drawn for the \<open>k\<close>-th new member
  (\<^verbatim>\<open>generateUUID()\<close> now, \<^verbatim>\<open>Date.now() + Math.floor(Math.random()*1000)\<close> in the older
  script; the two scripts differ in nothing else).
\<close>

definition addMember :: "(nat \<Rightarrow> jsid) \<Rightarrow> string \<Rightarrow> bool \<Rightarrow> appState \<Rightarrow> effect list \<times> appState" where
  "addMember generateId raw isSalvager' app =
     (let names = filter (\<lambda>n. n \<noteq> []) (map trim (splitDelimiters raw))
      in if length names = 0 then ([Alert ''Ingresa un nombre''], app)
         else ([SaveData, ShowMessage (digits (length names) @ '' miembro(s) agregado(s)'') ''success''],
               app\<lparr>members := members app @
                 map (\<lambda>(k, n). \<lparr>member.name = n, isSalvager = isSalvager', id' = generateId k\<rparr>)
                     (enumerate 0 names)\<rparr>))"

text \<open>\<^verbatim>\<open>removeMember(id)\<close>; \<open>confirmed\<close> is the answer to the \<^verbatim>\<open>confirm\<close> dialog.\<close>

definition removeMember :: "jsid \<Rightarrow> bool \<Rightarrow> appState \<Rightarrow> effect list \<times> appState" where
  "removeMember i confirmed app =
     (if \<not> confirmed then ([], app)
      else ([SaveData], app\<lparr>members := filter (\<lambda>m. \<not> strictEq (member.id' m) i) (members app)\<rparr>))"

section \<open>Sites\<close>

text \<open>
  The site form: the text of the name field, the value of the level field, and the values
  of the checked participant boxes (each box carries a member's id as text).
\<close>

record siteForm =
  siteName :: string
  siteLevel :: string
  checkedParticipants :: "string list"

text \<open>
  \<^verbatim>\<open>addSite()\<close>; \<open>now\<close> is \<^verbatim>\<open>Date.now()\<close>. The checks come in the source's order: the
  name, then the level, then the participants.
\<close>

definition addSite :: "int \<Rightarrow> siteForm \<Rightarrow> appState \<Rightarrow> effect list \<times> appState" where
  "addSite now form app =
     (let name' = trim (siteName form);
          level' = parseInt (siteLevel form)
      in if name' = [] then ([Alert ''Ingresa un nombre para el sitio''], app)
         else if jsLess level' (Num 1) \<or> jsLess (Num 10) level'
           then ([Alert ''El nivel debe estar entre 1 y 10''], app)
         else
           (let participantIds = map IdStr (checkedParticipants form)
            in if length participantIds = 0
                 then ([Alert ''Selecciona al menos un participante''], app)
               else
                 (let siteData = \<lparr>site.id' = now, name = name', level = level',
                                  participants = participantIds\<rparr>
                  in ([SaveData, ShowMessage ''Sitio registrado correctamente'' ''success''],
                      app\<lparr>sites := sites app @ [siteData]\<rparr>))))"

text \<open>The older script reads each checked value with \<^verbatim>\<open>parseInt\<close>; the rest is the same.\<close>

definition addSite_legacy :: "int \<Rightarrow> siteForm \<Rightarrow> appState \<Rightarrow> effect list \<times> appState" where
  "addSite_legacy now form app =
     (let name' = trim (siteName form);
          level' = parseInt (siteLevel form)
      in if name' = [] then ([Alert ''Ingresa un nombre para el sitio''], app)
         else if jsLess level' (Num 1) \<or> jsLess (Num 10) level'
           then ([Alert ''El nivel debe estar entre 1 y 10''], app)
         else
           (let participantIds = map (\<lambda>v. IdNum (parseInt v)) (checkedParticipants form)
            in if length participantIds = 0
                 then ([Alert ''Selecciona al menos un participante''], app)
               else
                 (let siteData = \<lparr>site.id' = now, name = name', level = level',
                                  participants = participantIds\<rparr>
                  in ([SaveData, ShowMessage ''Sitio registrado correctamente'' ''success''],
                      app\<lparr>sites := sites app @ [siteData]\<rparr>))))"

text \<open>The invariant of a stored site: an integer level from 1 to 10 and a participant.\<close>

definition siteInvariant :: "site \<Rightarrow> bool" where
  "siteInvariant s =
     ((case level s of NaN \<Rightarrow> False | Num k \<Rightarrow> 1 \<le> k \<and> k \<le> 10) \<and> participants s \<noteq> [])"

subsection \<open>The sites table\<close>

text \<open>\<^verbatim>\<open>Array.prototype.join\<close> on strings.\<close>

fun join :: "string \<Rightarrow> string list \<Rightarrow> string" where
  "join sep [] = []"
| "join sep [x] = x"
| "join sep (x # y # zs) = x @ sep @ join sep (y # zs)"

text \<open>The label of one participant id: the first member with that id, or the fallback.\<close>

definition participantName :: "member list \<Rightarrow> jsid \<Rightarrow> string" where
  "participantName ms pid =
     (case find (\<lambda>m. strictEq (member.id' m) pid) ms of
        Some m \<Rightarrow> member.name m
      | None \<Rightarrow> ''Desconocido'')"

text \<open>
  One table row per site: the cells of the template, without the markup. \<open>rowSiteId\<close> is
  the argument of the row's remove button.
\<close>

record siteRow =
  rowName :: string
  rowLevelName :: string
  rowParticipants :: string
  rowValue :: string
  rowSiteId :: int

datatype sitesView = NoSites | SitesTable "siteRow list"

definition siteRowOf :: "platform \<Rightarrow> appState \<Rightarrow> site \<Rightarrow> siteRow" where
  "siteRowOf pf app s =
     (let participantNames = join '', '' (map (participantName (members app)) (participants s));
          key = numToString (level s);
          levelValue = (case levelValues (config app) key of
                          None \<Rightarrow> 0 | Some v \<Rightarrow> (if v = 0 then 0 else v));
          levelName = strOr (case levelNames (config app) of None \<Rightarrow> None | Some names \<Rightarrow> names key)
                            (''Nivel '' @ key);
          value' = formatNumber pf (config app) (of_int levelValue) None @ '' '' @
                   strOr (currency (config app)) ''ISK''
      in \<lparr>rowName = site.name s, rowLevelName = levelName, rowParticipants = participantNames,
          rowValue = value', rowSiteId = site.id' s\<rparr>)"

text \<open>\<^verbatim>\<open>updateSitesList()\<close>: the text of the counter and the content of the list.\<close>

definition updateSitesList :: "platform \<Rightarrow> appState \<Rightarrow> string \<times> sitesView" where
  "updateSitesList pf app =
     (let totalSites = length (sites app)
      in (digits totalSites,
          if totalSites = 0 then NoSites else SitesTable (map (siteRowOf pf app) (sites app))))"

text \<open>
  The older script writes the value with \<^verbatim>\<open>levelValue.toLocaleString()\<close>, in the browser's
  default locale, and is the same otherwise.
\<close>

definition siteRowOf_legacy :: "platform \<Rightarrow> appState \<Rightarrow> site \<Rightarrow> siteRow" where
  "siteRowOf_legacy pf app s =
     (let participantNames = join '', '' (map (participantName (members app)) (participants s));
          key = numToString (level s);
          levelValue = (case levelValues (config app) key of
                          None \<Rightarrow> 0 | Some v \<Rightarrow> (if v = 0 then 0 else v));
          levelName = strOr (case levelNames (config app) of None \<Rightarrow> None | Some names \<Rightarrow> names key)
                            (''Nivel '' @ key);
          value' = defaultLocaleString pf levelValue @ '' '' @ strOr (currency (config app)) ''ISK''
      in \<lparr>rowName = site.name s, rowLevelName = levelName, rowParticipants = participantNames,
          rowValue = value', rowSiteId = site.id' s\<rparr>)"

definition updateSitesList_legacy :: "platform \<Rightarrow> appState \<Rightarrow> string \<times> sitesView" where
  "updateSitesList_legacy pf app =
     (let totalSites = length (sites app)
      in (digits totalSites,
          if totalSites = 0 then NoSites
          else SitesTable (map (siteRowOf_legacy pf app) (sites app))))"

text \<open>The rows of a view (none in the empty state).\<close>

fun rowsOf :: "sitesView \<Rightarrow> siteRow list" where
  "rowsOf NoSites = []"
| "rowsOf (SitesTable rows) = rows"

section \<open>Configuration\<close>

text \<open>
  The configuration form as \<^verbatim>\<open>saveConfig\<close> reads it. A level field has the attribute
  \<^verbatim>\<open>data-raw-value\<close> (absent until it is set) and its text; the name field of a level may be
  missing from the page; \<open>salvagerPercentInput\<close> is \<^verbatim>\<open>parseFloat\<close> of its field.
\<close>

record levelField =
  rawValue :: "string option"
  fieldValue :: string

record configForm =
  levelInput :: "nat \<Rightarrow> levelField"
  levelNameInput :: "nat \<Rightarrow> string option"
  hasSalvagerBox :: bool
  salvagerPercentInput :: "rat option"
  currencyInput :: string
  autoCalculateBox :: bool

text \<open>
  The loop of \<^verbatim>\<open>saveConfig\<close> over the levels still to do, on the two tables. It stops at the
  first level whose value fails the range check and returns that level; the tables then
  hold what the earlier rounds stored. Both assignments of a round (\<^verbatim>\<open>[i]\<close> and
  \<^verbatim>\<open>[String(i)]\<close>) write the property whose key is the decimal text of \<open>i\<close>.
\<close>

fun saveLevels :: "configForm \<Rightarrow> nat list \<Rightarrow> (string \<rightharpoonup> int) \<times> (string \<rightharpoonup> string) \<Rightarrow>
    nat option \<times> (string \<rightharpoonup> int) \<times> (string \<rightharpoonup> string)" where
  "saveLevels form [] (vals, names) = (None, vals, names)"
| "saveLevels form (i # rest) (vals, names) =
     (let field = levelInput form i;
          levelValue = parseFormattedNumber (strOr (rawValue field) (fieldValue field));
          levelName = strOr (Some (trim (case levelNameInput form i of
                                           None \<Rightarrow> ''Sitio '' @ digits i | Some v \<Rightarrow> v)))
                            (''Sitio '' @ digits i)
      in if levelValue < 0 \<or> levelValue > 999999999999 then (Some i, vals, names)
         else saveLevels form rest
                (vals(numToString (Num (int i)) \<mapsto> levelValue, digits i \<mapsto> levelValue),
                 names(numToString (Num (int i)) \<mapsto> levelName, digits i \<mapsto> levelName)))"

text \<open>The error message of level \<open>i\<close>; its last word has an a with acute accent.\<close>

definition invalidLevelMessage :: "nat \<Rightarrow> string" where
  "invalidLevelMessage i = ''Valor de nivel '' @ digits i @ '' inv'' @ [CHR 0xE1] @ ''lido''"

definition configSavedMessage :: string where
  "configSavedMessage = ''Configuraci'' @ [CHR 0xF3] @ ''n guardada correctamente''"

text \<open>\<^verbatim>\<open>saveConfig()\<close> of the current script.\<close>

definition saveConfig :: "configForm \<Rightarrow> appState \<Rightarrow> effect list \<times> appState" where
  "saveConfig form app =
     (let cfg = config app;
          names0 = (case levelNames cfg of None \<Rightarrow> Map.empty | Some names \<Rightarrow> names);
          (bad, vals1, names1) = saveLevels form [1..<11] (levelValues cfg, names0);
          cfg1 = cfg\<lparr>levelValues := vals1, levelNames := Some names1\<rparr>
      in case bad of
           Some i \<Rightarrow> ([ShowMessage (invalidLevelMessage i) ''error''], app\<lparr>config := cfg1\<rparr>)
         | None \<Rightarrow>
             ([SaveData, ShowMessage configSavedMessage ''success''],
              app\<lparr>config := cfg1\<lparr>hasSalvager := hasSalvagerBox form,
                                  salvagerPercent := salvagerPercentInput form,
                                  currency := Some (currencyInput form),
                                  autoCalculate := autoCalculateBox form\<rparr>\<rparr>))"

text \<open>The value that \<^verbatim>\<open>saveConfig\<close> parses for level \<open>i\<close>.\<close>

definition parsedLevel :: "configForm \<Rightarrow> nat \<Rightarrow> int" where
  "parsedLevel form i =
     parseFormattedNumber (strOr (rawValue (levelInput form i)) (fieldValue (levelInput form i)))"

section \<open>Payments display\<close>

record payment =
  memberId :: jsid
  name :: string
  isSalvager :: bool
  sitesCount :: int
  total :: rat

text \<open>
  Arrays are objects: \<^verbatim>\<open>calculations.payments\<close> is a reference into the store of arrays,
  \<^verbatim>\<open>[...a]\<close> allocates a new array with the elements of \<open>a\<close>, and \<^verbatim>\<open>sort\<close> reorders the
  array it is called on.
\<close>

type_synonym arrays = "payment list list"

record calculations =
  totalPaid :: rat
  totalSites :: int
  payments :: nat

definition spreadCopy :: "arrays \<Rightarrow> nat \<Rightarrow> arrays \<times> nat" where
  "spreadCopy store r = (store @ [store ! r], length store)"

text \<open>
  \<^verbatim>\<open>Array.prototype.sort\<close> with a comparator: the sort is stable, so with a consistent
  comparator the result is the one of inserting each element before the first element it
  does not come after.
\<close>

fun insertSorted :: "('a \<Rightarrow> 'a \<Rightarrow> rat) \<Rightarrow> 'a \<Rightarrow> 'a list \<Rightarrow> 'a list" where
  "insertSorted cmp x [] = [x]"
| "insertSorted cmp x (y # ys) = (if cmp x y \<le> 0 then x # y # ys else y # insertSorted cmp x ys)"

definition jsSort :: "('a \<Rightarrow> 'a \<Rightarrow> rat) \<Rightarrow> 'a list \<Rightarrow> 'a list" where
  "jsSort cmp xs = foldr (insertSorted cmp) xs []"

definition sortInPlace :: "(payment \<Rightarrow> payment \<Rightarrow> rat) \<Rightarrow> arrays \<Rightarrow> nat \<Rightarrow> arrays" where
  "sortInPlace cmp store r = store[r := jsSort cmp (store ! r)]"

record paymentItem =
  itemSalvager :: bool
  itemName :: string
  itemSites :: string
  itemAmount :: string

datatype paymentsView = NoPaymentData | NoPayments | PaymentItems "paymentItem list"

record paymentsDisplay =
  totalPaidText :: string
  totalSitesText :: string
  avgPerSiteText :: string
  paymentsList :: paymentsView

text \<open>
  The operator \<^verbatim>\<open>/\<close>. A division by zero does not throw: it gives an infinity or \<^verbatim>\<open>NaN\<close>,
  here \<open>NonFinite\<close>; any other quotient is taken exactly.
\<close>

datatype quotient = Finite rat | NonFinite

definition jsDivide :: "rat \<Rightarrow> rat \<Rightarrow> quotient" where
  "jsDivide x y = (if y = 0 then NonFinite else Finite (x / y))"

text \<open>The average of the display: \<^verbatim>\<open>totalSites > 0 ? totalPaid / totalSites : 0\<close>.\<close>

definition avgPerSite :: "calculations \<Rightarrow> quotient" where
  "avgPerSite c =
     (if totalSites c > 0 then jsDivide (totalPaid c) (of_int (totalSites c)) else Finite 0)"

definition byTotalDescending :: "payment \<Rightarrow> payment \<Rightarrow> rat" where
  "byTotalDescending a b = total b - total a"

text \<open>One entry of the payments list, given the text of its amount and the salvager mark.\<close>

definition paymentItemOf :: "(rat \<Rightarrow> string) \<Rightarrow> string \<Rightarrow> string \<Rightarrow> payment \<Rightarrow> paymentItem" where
  "paymentItemOf fmt mark currency' p =
     \<lparr>itemSalvager = payment.isSalvager p,
      itemName = payment.name p @ (if payment.isSalvager p then mark else []),
      itemSites = intToString (sitesCount p) @ '' sitio(s)'',
      itemAmount = fmt (total p) @ '' '' @ currency'\<rparr>"

text \<open>
  \<^verbatim>\<open>updatePaymentsDisplay()\<close> of the current script: the texts written to the page, and the
  store of arrays afterwards.
\<close>

definition updatePaymentsDisplay ::
    "platform \<Rightarrow> appState \<Rightarrow> calculations option \<Rightarrow> arrays \<Rightarrow> paymentsDisplay \<times> arrays" where
  "updatePaymentsDisplay pf app calc store =
     (let currency' = strOr (currency (config app)) ''ISK''
      in case calc of
           None \<Rightarrow>
             (\<lparr>totalPaidText = ''0 '' @ currency', totalSitesText = ''0'',
               avgPerSiteText = ''0 '' @ currency', paymentsList = NoPaymentData\<rparr>, store)
         | Some c \<Rightarrow>
             (let paid = formatNumber pf (config app) (totalPaid c) None @ '' '' @ currency';
                  count = (if totalSites c = 0 then ''0'' else intToString (totalSites c));
                  avg = (case avgPerSite c of
                           Finite a \<Rightarrow> formatNumber pf (config app) a None
                         | NonFinite \<Rightarrow> nonFiniteString pf (totalPaid c)) @ '' '' @ currency'
              in if length (store ! payments c) = 0
                   then (\<lparr>totalPaidText = paid, totalSitesText = count, avgPerSiteText = avg,
                          paymentsList = NoPayments\<rparr>, store)
                 else
                   (let (store1, copy) = spreadCopy store (payments c);
                        store2 = sortInPlace byTotalDescending store1 copy;
                        sortedPayments = store2 ! copy
                    in (\<lparr>totalPaidText = paid, totalSitesText = count, avgPerSiteText = avg,
                         paymentsList = PaymentItems
                           (map (paymentItemOf (\<lambda>x. formatNumber pf (config app) x None)
                                   ''Salvager'' currency') sortedPayments)\<rparr>,
                        store2))))"

text \<open>
  The older script rounds and then formats in the browser's default locale, and marks a
  salvager with a space and a star; the star is outside the characters modelled, so the
  mark is the parameter \<open>star\<close>.
\<close>

definition updatePaymentsDisplay_legacy ::
    "platform \<Rightarrow> string \<Rightarrow> appState \<Rightarrow> calculations option \<Rightarrow> arrays \<Rightarrow> paymentsDisplay \<times> arrays" where
  "updatePaymentsDisplay_legacy pf star app calc store =
     (let currency' = strOr (currency (config app)) ''ISK''
      in case calc of
           None \<Rightarrow>
             (\<lparr>totalPaidText = ''0 '' @ currency', totalSitesText = ''0'',
               avgPerSiteText = ''0 '' @ currency', paymentsList = NoPaymentData\<rparr>, store)
         | Some c \<Rightarrow>
             (let paid = defaultLocaleString pf (Math_round (totalPaid c)) @ '' '' @ currency';
                  count = (if totalSites c = 0 then ''0'' else intToString (totalSites c));
                  avg = (case avgPerSite c of
                           Finite a \<Rightarrow> defaultLocaleString pf (Math_round a)
                         | NonFinite \<Rightarrow> nonFiniteString pf (totalPaid c)) @ '' '' @ currency'
              in if length (store ! payments c) = 0
                   then (\<lparr>totalPaidText = paid, totalSitesText = count, avgPerSiteText = avg,
                          paymentsList = NoPayments\<rparr>, store)
                 else
                   (let (store1, copy) = spreadCopy store (payments c);
                        store2 = sortInPlace byTotalDescending store1 copy;
                        sortedPayments = store2 ! copy
                    in (\<lparr>totalPaidText = paid, totalSitesText = count, avgPerSiteText = avg,
                         paymentsList = PaymentItems
                           (map (paymentItemOf (\<lambda>x. defaultLocaleString pf (Math_round x))
                                   star currency') sortedPayments)\<rparr>,
                        store2))))"

text \<open>The entries of a payments list (none when the list shows a notice instead).\<close>

fun itemsOf :: "paymentsView \<Rightarrow> paymentItem list" where
  "itemsOf (PaymentItems items) = items"
| "itemsOf NoPaymentData = []"
| "itemsOf NoPayments = []"

section \<open>Import\<close>

text \<open>
  A value that \<^verbatim>\<open>JSON.parse\<close> returns. An object keeps its members in the order of the
  text; where a key is repeated the last member is the property.
\<close>

datatype json =
    JNull
  | JBool bool
  | JNumber rat
  | JString string
  | JArray "json list"
  | JObject "(string \<times> json) list"

text \<open>
  Reading the property \<open>k\<close> of a parsed value, for a key that no prototype defines (as
  \<^verbatim>\<open>config\<close>, \<^verbatim>\<open>members\<close> and \<^verbatim>\<open>sites\<close>): \<^verbatim>\<open>null\<close> has no properties and the read throws;
  an object gives its member or \<^verbatim>\<open>undefined\<close> (\<open>None\<close>); any other value gives \<^verbatim>\<open>undefined\<close>.
\<close>

fun getProp :: "json \<Rightarrow> string \<Rightarrow> jserror + json option" where
  "getProp JNull k = Inl TypeError"
| "getProp (JObject kvs) k = Inr (map_of (rev kvs) k)"
| "getProp _ k = Inr None"

text \<open>Truthiness, as the operator \<^verbatim>\<open>!\<close> tests it; \<open>None\<close> is \<^verbatim>\<open>undefined\<close>.\<close>

fun truthy :: "json option \<Rightarrow> bool" where
  "truthy None = False"
| "truthy (Some JNull) = False"
| "truthy (Some (JBool b)) = b"
| "truthy (Some (JNumber x)) = (x \<noteq> 0)"
| "truthy (Some (JString s)) = (s \<noteq> [])"
| "truthy (Some (JArray xs)) = True"
| "truthy (Some (JObject kvs)) = True"

text \<open>
  The chosen file: its MIME type and what reading it gives, a read error or a text, the
  text taken as \<^verbatim>\<open>JSON.parse\<close> sees it (\<open>None\<close> when it throws a syntax error).
\<close>

datatype fileContents = Unreadable | FileText "json option"

record importFile =
  fileType :: string
  contents :: fileContents

text \<open>
  During an import \<^verbatim>\<open>appData\<close> holds whatever values the document has, so the state is
  the document of three JSON values.
\<close>

type_synonym document = "(json, json, json) appData"

definition invalidStructureMessage :: string where
  "invalidStructureMessage = ''Estructura de datos inv'' @ [CHR 0xE1] @ ''lida''"

definition invalidFileMessage :: string where
  "invalidFileMessage = ''Por favor selecciona un archivo JSON v'' @ [CHR 0xE1] @ ''lido''"

text \<open>
  \<^verbatim>\<open>handleFileImport(event)\<close> together with the reader's callbacks (the same text in both
  scripts). \<open>file\<close> is \<^verbatim>\<open>event.target.files[0]\<close>, \<open>confirmed\<close> the answer to the dialog, and
  \<open>renderAll\<close> tells whether rendering the imported document throws (the rendering is
  inside the \<^verbatim>\<open>try\<close>, after the three assignments and \<^verbatim>\<open>saveData()\<close>).
\<close>

definition handleFileImport ::
    "(document \<Rightarrow> jserror option) \<Rightarrow> importFile option \<Rightarrow> bool \<Rightarrow> document \<Rightarrow> effect list \<times> document" where
  "handleFileImport renderAll file' confirmed app =
     (case file' of
        None \<Rightarrow> ([], app)
      | Some f \<Rightarrow>
          if fileType f \<noteq> ''application/json'' then ([Alert invalidFileMessage], app)
          else
            (case contents f of
               Unreadable \<Rightarrow> ([Alert ''Error al leer el archivo''], app)
             | FileText None \<Rightarrow> ([AlertImportError SyntaxError], app)
             | FileText (Some importedData) \<Rightarrow>
                 (case getProp importedData ''config'' of
                    Inl e \<Rightarrow> ([AlertImportError e], app)
                  | Inr c \<Rightarrow>
                 (case getProp importedData ''members'' of
                    Inl e \<Rightarrow> ([AlertImportError e], app)
                  | Inr m \<Rightarrow>
                 (case getProp importedData ''sites'' of
                    Inl e \<Rightarrow> ([AlertImportError e], app)
                  | Inr s \<Rightarrow>
                      if \<not> truthy c \<or> \<not> truthy m \<or> \<not> truthy s
                        then ([AlertImportError (Error invalidStructureMessage)], app)
                      else if \<not> confirmed then ([], app)
                      else
                        (case (c, m, s) of
                           (Some c', Some m', Some s') \<Rightarrow>
                             (let app' = app\<lparr>config := c', members := m', sites := s'\<rparr>
                              in case renderAll app' of
                                   Some e \<Rightarrow> ([SaveData, AlertImportError e], app')
                                 | None \<Rightarrow>
                                     ([SaveData,
                                       ShowMessage ''Datos importados correctamente'' ''success''],
                                      app'))
                         | _ \<Rightarrow> ([AlertImportError (Error invalidStructureMessage)], app)))))))"

text \<open>A top-level key is present when the parsed value is an object with such a member.\<close>

definition hasKey :: "json \<Rightarrow> string \<Rightarrow> bool" where
  "hasKey d k = (case d of JObject kvs \<Rightarrow> k \<in> fst ` set kvs | _ \<Rightarrow> False)"

text \<open>A handler accepted its input when it went on to \<^verbatim>\<open>saveData()\<close>.\<close>

definition accepted :: "effect list \<times> 'a \<Rightarrow> bool" where
  "accepted r = (SaveData \<in> set (fst r))"

section \<open>Vocabulary of the statements\<close>

text \<open>
  The names that a text holds, in the words of the claim: the text is cut at every comma
  and every newline, each piece is stripped of the white space around it, and the pieces
  that are not empty then are the names, in the order of the text.
\<close>

fun piecesOf :: "string \<Rightarrow> string list" where
  "piecesOf [] = [[]]"
| "piecesOf (c # cs) =
     (if isDelimiter c then [] # piecesOf cs
      else (case piecesOf cs of [] \<Rightarrow> [[c]] | p # ps \<Rightarrow> (c # p) # ps))"

definition namesIn :: "string \<Rightarrow> string list" where
  "namesIn raw = filter (\<lambda>n. n \<noteq> []) (map trim (piecesOf raw))"

text \<open>
  A text put together from pieces: the pieces in their order, with the given separators
  between them (a comma where the separators run out).
\<close>

fun delimited :: "string list \<Rightarrow> string list \<Rightarrow> string" where
  "delimited [] seps = []"
| "delimited [n] seps = n"
| "delimited (n # m # ns) [] = n @ '','' @ delimited (m # ns) []"
| "delimited (n # m # ns) (d # ds) = n @ d @ delimited (m # ns) ds"

text \<open>The range check of \<^verbatim>\<open>saveConfig\<close> fails for level \<open>i\<close> of a form.\<close>

definition invalidLevel :: "configForm \<Rightarrow> nat \<Rightarrow> bool" where
  "invalidLevel form i = (parsedLevel form i < 0 \<or> parsedLevel form i > 999999999999)"

text \<open>What a round of the loop stores in the table of values for a level that passes.\<close>

definition storeLevel :: "configForm \<Rightarrow> (string \<rightharpoonup> int) \<Rightarrow> nat \<Rightarrow> (string \<rightharpoonup> int)" where
  "storeLevel form m j = m(digits j \<mapsto> parsedLevel form j)"

section \<open>Sample data\<close>

text \<open>A small document on which the properties below are evaluated.\<close>

definition samplePlatform :: platform where
  "samplePlatform =
     \<lparr>minimumGroupingDigits = (\<lambda>loc. 1), defaultLocaleString = intToString,
      nonFiniteString = (\<lambda>x. if x = 0 then ''NaN'' else if x < 0 then ''-Infinity'' else ''Infinity'')\<rparr>"

definition sampleConfig :: config where
  "sampleConfig =
     \<lparr>levelValues = [''1'' \<mapsto> 500000], levelNames = None, hasSalvager = False,
      salvagerPercent = Some 10, currency = Some ''ISK'', autoCalculate = True,
      numberFormat = Some ''comma''\<rparr>"

definition sampleMembers :: "member list" where
  "sampleMembers =
     [\<lparr>member.name = ''Alice'', isSalvager = False, id' = IdStr ''u1''\<rparr>,
      \<lparr>member.name = ''Bob'', isSalvager = True, id' = IdStr ''u2''\<rparr>]"

text \<open>The first site names an id that no member has; the second has a level without a value.\<close>

definition sampleSites :: "site list" where
  "sampleSites =
     [\<lparr>site.id' = 1700000000001, name = ''Gate'', level = Num 1,
       participants = [IdStr ''u1'', IdStr ''u9'', IdStr ''u2'']\<rparr>,
      \<lparr>site.id' = 1700000000002, name = ''Hub'', level = Num 7,
       participants = [IdStr ''u2'']\<rparr>]"

definition sampleApp :: appState where
  "sampleApp = \<lparr>config = sampleConfig, members = sampleMembers, sites = sampleSites\<rparr>"

text \<open>A result of the engine: the store holds its payments array at reference 0.\<close>

definition samplePayments :: "payment list" where
  "samplePayments =
     [\<lparr>memberId = IdStr ''u1'', name = ''Alice'', isSalvager = False, sitesCount = 1,
       total = 250000\<rparr>,
      \<lparr>memberId = IdStr ''u2'', name = ''Bob'', isSalvager = True, sitesCount = 2,
       total = 1000000\<rparr>,
      \<lparr>memberId = IdStr ''u3'', name = ''Carol'', isSalvager = False, sitesCount = 1,
       total = 250000\<rparr>]"

definition sampleCalculations :: calculations where
  "sampleCalculations = \<lparr>totalPaid = 1500000, totalSites = 2, payments = 0\<rparr>"

text \<open>
  A configuration form whose second level is a million millions, one more than the
  greatest value allowed; the first level is 5 and the others are 0.
\<close>

definition sampleForm :: configForm where
  "sampleForm =
     \<lparr>levelInput = (\<lambda>i. if i = 1 then \<lparr>rawValue = Some ''5'', fieldValue = ''5''\<rparr>
                         else if i = 2 then \<lparr>rawValue = None, fieldValue = ''1,000,000,000,000''\<rparr>
                         else \<lparr>rawValue = Some ''0'', fieldValue = ''0''\<rparr>),
      levelNameInput = (\<lambda>i. None), hasSalvagerBox = True, salvagerPercentInput = Some 20,
      currencyInput = ''ISK'', autoCalculateBox = True\<rparr>"

text \<open>The same form with the first level out of range instead.\<close>

definition sampleFormFirstBad :: configForm where
  "sampleFormFirstBad =
     \<lparr>levelInput = (\<lambda>i. if i = 1 then \<lparr>rawValue = None, fieldValue = ''1,000,000,000,000''\<rparr>
                         else \<lparr>rawValue = Some ''7'', fieldValue = ''7''\<rparr>),
      levelNameInput = (\<lambda>i. None), hasSalvagerBox = True, salvagerPercentInput = Some 20,
      currencyInput = ''ISK'', autoCalculateBox = True\<rparr>"

section \<open>Properties of the helpers\<close>

text \<open>The recursive equations are unfolded where a proof asks for them, not by default.\<close>

declare digits.simps [simp del]
declare splitDelimiters.simps [simp del]

lemma digitChar_simps:
  "digitChar 0 = CHR ''0''" "digitChar 1 = CHR ''1''" "digitChar 2 = CHR ''2''"
  "digitChar 3 = CHR ''3''" "digitChar 4 = CHR ''4''" "digitChar 5 = CHR ''5''"
  "digitChar 6 = CHR ''6''" "digitChar 7 = CHR ''7''" "digitChar 8 = CHR ''8''"
  "digitChar 9 = CHR ''9''" "digitChar (Suc 0) = CHR ''1''"
  by code_simp+

lemma digitChar_0: "digitChar 0 = CHR ''0''"
  by (rule digitChar_simps)

lemma digits_0: "digits 0 = ''0''"
  by (simp add: digits.simps digitChar_0)

lemma grouped_short: "length ds < 3 \<Longrightarrow> grouped pf loc ds = ds"
  by (simp add: grouped_def)

lemma toLocaleString_0: "toLocaleString pf loc 0 = ''0''"
  by (simp add: toLocaleString_def digits_0 grouped_short)

lemma Math_round_0: "Math_round 0 = 0"
  by (simp add: Math_round_def floor_eq_iff)

lemma Math_round_of_int: "Math_round (of_int k) = k"
  by (simp add: Math_round_def floor_eq_iff)

lemma Math_round_of_nat: "Math_round (of_nat n) = int n"
  using Math_round_of_int [of "int n"] by simp

lemma Math_round_numeral: "Math_round (numeral k) = numeral k"
  using Math_round_of_int [of "numeral k"] by simp

lemma formatNumber_0: "formatNumber pf cfg 0 fmt = ''0''"
  by (simp add: formatNumber_def Let_def Math_round_0 toLocaleString_0)

section \<open>Removing a member\<close>

text \<open>
  C10. A confirmed \<^verbatim>\<open>removeMember(id)\<close> keeps, in their order, exactly the members whose id
  is not strictly equal to the given one, and leaves the sites and the configuration as
  they were; so a site may go on naming the removed id. A declined one changes nothing.
\<close>

theorem removeMember_frame:
  "members (snd (removeMember i True app)) =
     filter (\<lambda>m. \<not> strictEq (member.id' m) i) (members app)
   \<and> (\<forall>m. m \<in> set (members (snd (removeMember i True app))) =
        (m \<in> set (members app) \<and> \<not> strictEq (member.id' m) i))
   \<and> sites (snd (removeMember i True app)) = sites app
   \<and> config (snd (removeMember i True app)) = config app
   \<and> snd (removeMember i False app) = app"
  by (simp add: removeMember_def)

theorem removeMember_frame_witness:
  "map member.name (members (snd (removeMember (IdStr ''u1'') True sampleApp))) = [''Bob'']
   \<and> IdStr ''u1'' \<in> set (participants (hd (sites (snd (removeMember (IdStr ''u1'') True sampleApp)))))
   \<and> config (snd (removeMember (IdStr ''u1'') True sampleApp)) = sampleConfig"
  using removeMember_frame [of "IdStr ''u1''" sampleApp]
  by (simp add: sampleApp_def sampleMembers_def sampleSites_def)

section \<open>The average per site\<close>

lemma jsDivide_zero: "jsDivide x 0 = NonFinite"
  by (simp add: jsDivide_def)

lemma avgPerSite_finite: "\<exists>a. avgPerSite c = Finite a"
  by (simp add: avgPerSite_def jsDivide_def)

text \<open>
  C9. The average of the display is never the result of a division by zero: it is a
  finite number for every \<^verbatim>\<open>calculations\<close> value. When \<^verbatim>\<open>totalSites\<close> is zero or negative it is
  the constant 0, and the page shows 0 with the currency in both scripts; at zero sites the
  quotient \<^verbatim>\<open>totalPaid / totalSites\<close>, which the script does not take, is not finite.
\<close>

theorem avgPerSite_no_division:
  "avgPerSite c \<noteq> NonFinite
   \<and> (totalSites c \<le> 0 \<longrightarrow>
        avgPerSite c = Finite 0
      \<and> avgPerSiteText (fst (updatePaymentsDisplay pf app (Some c) store)) =
          ''0 '' @ strOr (currency (config app)) ''ISK''
      \<and> avgPerSiteText (fst (updatePaymentsDisplay_legacy pf star app (Some c) store)) =
          defaultLocaleString pf 0 @ '' '' @ strOr (currency (config app)) ''ISK'')
   \<and> (totalSites c = 0 \<longrightarrow>
        jsDivide (totalPaid c) (of_int (totalSites c)) = NonFinite
      \<and> avgPerSite c \<noteq> jsDivide (totalPaid c) (of_int (totalSites c)))"
proof (intro conjI impI)
  show "avgPerSite c \<noteq> NonFinite"
    using avgPerSite_finite [of c] by auto
next
  assume le: "totalSites c \<le> 0"
  then show a: "avgPerSite c = Finite 0" by (simp add: avgPerSite_def)
  show "avgPerSiteText (fst (updatePaymentsDisplay pf app (Some c) store)) =
          ''0 '' @ strOr (currency (config app)) ''ISK''"
    by (simp add: a updatePaymentsDisplay_def Let_def formatNumber_0 split: prod.splits)
  show "avgPerSiteText (fst (updatePaymentsDisplay_legacy pf star app (Some c) store)) =
          defaultLocaleString pf 0 @ '' '' @ strOr (currency (config app)) ''ISK''"
    by (simp add: a updatePaymentsDisplay_legacy_def Let_def Math_round_0 split: prod.splits)
next
  assume z: "totalSites c = 0"
  then show "jsDivide (totalPaid c) (of_int (totalSites c)) = NonFinite"
    by (simp add: jsDivide_zero)
  with z show "avgPerSite c \<noteq> jsDivide (totalPaid c) (of_int (totalSites c))"
    by (simp add: avgPerSite_def)
qed

theorem avgPerSite_no_division_witness:
  "totalSites \<lparr>totalPaid = 750000, totalSites = 0, payments = 0\<rparr> \<le> 0
   \<and> avgPerSite \<lparr>totalPaid = 750000, totalSites = 0, payments = 0\<rparr> = Finite 0
   \<and> jsDivide 750000 0 = NonFinite
   \<and> avgPerSite \<lparr>totalPaid = 750000, totalSites = - 3, payments = 0\<rparr> = Finite 0
   \<and> avgPerSite \<lparr>totalPaid = 750000, totalSites = 3, payments = 0\<rparr> = Finite 250000
   \<and> avgPerSiteText (fst (updatePaymentsDisplay samplePlatform sampleApp
        (Some \<lparr>totalPaid = 750000, totalSites = 0, payments = 0\<rparr>) [[]])) = ''0 ISK''
   \<and> avgPerSiteText (fst (updatePaymentsDisplay_legacy samplePlatform '' *'' sampleApp
        (Some \<lparr>totalPaid = 750000, totalSites = 0, payments = 0\<rparr>) [[]])) = ''0 ISK''"
  using avgPerSite_no_division [of "\<lparr>totalPaid = 750000, totalSites = 0, payments = 0\<rparr>"
      samplePlatform sampleApp "[[]]" "'' *''"]
    avgPerSite_no_division [of "\<lparr>totalPaid = 750000, totalSites = - 3, payments = 0\<rparr>"
      samplePlatform sampleApp "[[]]" "'' *''"]
  by (simp add: sampleApp_def sampleConfig_def samplePlatform_def intToString_def digits_0
      avgPerSite_def jsDivide_def)

section \<open>Importing a document\<close>

lemma truthy_getProp_hasKey:
  assumes "getProp d k = Inr v" "truthy v"
  shows "hasKey d k"
proof (cases d)
  case (JObject kvs)
  with assms obtain x where "map_of (rev kvs) k = Some x"
    by (cases v) auto
  then have "(k, x) \<in> set (rev kvs)" by (rule map_of_SomeD)
  then have "k \<in> fst ` set kvs" by force
  with JObject show ?thesis by (simp add: hasKey_def)
qed (use assms in auto)

text \<open>
  C2. An import goes through to the three assignments and \<^verbatim>\<open>saveData()\<close> only when the
  parsed document has the keys \<^verbatim>\<open>config\<close>, \<^verbatim>\<open>members\<close> and \<^verbatim>\<open>sites\<close>. When one of them is
  missing, an error is raised (and shown by the handler's \<^verbatim>\<open>catch\<close>) and \<^verbatim>\<open>appData\<close> is what
  it was, in each of its three parts.
\<close>

theorem handleFileImport_requires_keys:
  fixes renderAll d confirmed app
  defines "r \<equiv> handleFileImport renderAll
      (Some \<lparr>fileType = ''application/json'', contents = FileText (Some d)\<rparr>) confirmed app"
  shows "(accepted r \<longrightarrow> hasKey d ''config'' \<and> hasKey d ''members'' \<and> hasKey d ''sites'')
       \<and> (\<not> (hasKey d ''config'' \<and> hasKey d ''members'' \<and> hasKey d ''sites'') \<longrightarrow>
            snd r = app \<and> (\<exists>e. fst r = [AlertImportError e]))"
proof (cases "d = JNull")
  case True
  then show ?thesis by (simp add: r_def handleFileImport_def accepted_def hasKey_def)
next
  case False
  then obtain c m s where g: "getProp d ''config'' = Inr c" "getProp d ''members'' = Inr m"
      "getProp d ''sites'' = Inr s"
    by (cases d) auto
  show ?thesis
  proof (cases "truthy c \<and> truthy m \<and> truthy s")
    case True
    then have "hasKey d ''config''" "hasKey d ''members''" "hasKey d ''sites''"
      using g truthy_getProp_hasKey by blast+
    then show ?thesis by simp
  next
    case False
    then have "r = ([AlertImportError (Error invalidStructureMessage)], app)"
      using g by (auto simp add: r_def handleFileImport_def)
    then show ?thesis by (simp add: accepted_def)
  qed
qed

theorem handleFileImport_requires_keys_witness:
  "accepted (handleFileImport (\<lambda>doc. None)
      (Some \<lparr>fileType = ''application/json'', contents = FileText (Some (JObject
         [(''config'', JObject []), (''members'', JArray []), (''sites'', JArray [])]))\<rparr>) True
      \<lparr>config = JNull, members = JNull, sites = JNull\<rparr>)
   \<and> hasKey (JObject [(''config'', JObject []), (''members'', JArray []), (''sites'', JArray [])])
        ''sites''
   \<and> \<not> hasKey (JObject [(''config'', JObject []), (''members'', JArray [])]) ''sites''
   \<and> handleFileImport (\<lambda>doc. None)
      (Some \<lparr>fileType = ''application/json'', contents = FileText (Some (JObject
         [(''config'', JObject []), (''members'', JArray [])]))\<rparr>) True
      \<lparr>config = JNull, members = JNull, sites = JNull\<rparr> =
     ([AlertImportError (Error invalidStructureMessage)],
      \<lparr>config = JNull, members = JNull, sites = JNull\<rparr>)"
  using handleFileImport_requires_keys [of "\<lambda>doc. None"
      "JObject [(''config'', JObject []), (''members'', JArray []), (''sites'', JArray [])]" True
      "\<lparr>config = JNull, members = JNull, sites = JNull\<rparr>"]
    handleFileImport_requires_keys [of "\<lambda>doc. None"
      "JObject [(''config'', JObject []), (''members'', JArray [])]" True
      "\<lparr>config = JNull, members = JNull, sites = JNull\<rparr>"]
  by (simp add: handleFileImport_def accepted_def hasKey_def)

section \<open>Rendering the sites table\<close>

lemma participantName_unknown:
  "\<forall>m\<in>set ms. \<not> strictEq (member.id' m) pid \<Longrightarrow> participantName ms pid = ''Desconocido''"
  by (induction ms) (auto simp add: participantName_def)

lemma participantName_known:
  "\<exists>m\<in>set ms. strictEq (member.id' m) pid \<Longrightarrow>
   \<exists>m\<in>set ms. strictEq (member.id' m) pid \<and> participantName ms pid = member.name m"
  by (induction ms) (auto simp add: participantName_def)

lemma rows_length:
  "length (rowsOf (snd (updateSitesList pf app))) = length (sites app)"
  "length (rowsOf (snd (updateSitesList_legacy pf app))) = length (sites app)"
  by (simp_all add: updateSitesList_def updateSitesList_legacy_def Let_def)

lemma rows_nth:
  assumes "i < length (sites app)"
  shows "rowsOf (snd (updateSitesList pf app)) ! i = siteRowOf pf app (sites app ! i)"
    and "rowsOf (snd (updateSitesList_legacy pf app)) ! i = siteRowOf_legacy pf app (sites app ! i)"
  using assms by (auto simp add: updateSitesList_def updateSitesList_legacy_def Let_def)

text \<open>
  C3. The sites table has a row for every site, whatever ids its participant list holds
  (the rendering has no failing branch). The participants cell of a row joins one label
  per participant id, in the list's order: an id that no member of the roster has is
  shown as \<^verbatim>\<open>Desconocido\<close>, and an id that a member has is shown as the name of a member with
  that id. Both scripts render the cell alike.
\<close>

theorem updateSitesList_unknown_participant:
  assumes "i < length (sites app)"
  shows "length (rowsOf (snd (updateSitesList pf app))) = length (sites app)
     \<and> rowParticipants (rowsOf (snd (updateSitesList pf app)) ! i) =
         join '', '' (map (participantName (members app)) (participants (sites app ! i)))
     \<and> rowParticipants (rowsOf (snd (updateSitesList_legacy pf app)) ! i) =
         join '', '' (map (participantName (members app)) (participants (sites app ! i)))
     \<and> (\<forall>pid. (\<forall>m\<in>set (members app). \<not> strictEq (member.id' m) pid) \<longrightarrow>
            participantName (members app) pid = ''Desconocido'')
     \<and> (\<forall>pid. (\<exists>m\<in>set (members app). strictEq (member.id' m) pid) \<longrightarrow>
            (\<exists>m\<in>set (members app). strictEq (member.id' m) pid
               \<and> participantName (members app) pid = member.name m))"
  using participantName_known [of "members app"] participantName_unknown [of "members app"]
  by (simp add: rows_length rows_nth [OF assms] siteRowOf_def siteRowOf_legacy_def Let_def)

theorem updateSitesList_unknown_participant_witness:
  "(0::nat) < length (sites sampleApp)
   \<and> find (\<lambda>m. strictEq (member.id' m) (IdStr ''u9'')) (members sampleApp) = None
   \<and> rowParticipants (rowsOf (snd (updateSitesList samplePlatform sampleApp)) ! 0) =
       ''Alice, Desconocido, Bob''
   \<and> rowParticipants (rowsOf (snd (updateSitesList_legacy samplePlatform sampleApp)) ! 0) =
       ''Alice, Desconocido, Bob''"
proof -
  have h: "0 < length (sites sampleApp)"
    by (simp add: sampleApp_def sampleSites_def)
  have p: "join '', '' (map (participantName (members sampleApp))
             (participants (sites sampleApp ! 0))) = ''Alice, Desconocido, Bob''"
    by (simp add: sampleApp_def sampleSites_def sampleMembers_def participantName_def)
  have u: "find (\<lambda>m. strictEq (member.id' m) (IdStr ''u9'')) (members sampleApp) = None"
    by (simp add: sampleApp_def sampleMembers_def)
  from updateSitesList_unknown_participant [OF h, of samplePlatform] p u h
  show ?thesis by simp
qed



section \<open>Formatting and parsing numbers\<close>

lemma of_char_digitChar: "d < 10 \<Longrightarrow> of_char (digitChar d) = 48 + d"
  by (simp add: digitChar_def)

lemma isDecimalDigit_digitChar: "d < 10 \<Longrightarrow> isDecimalDigit (digitChar d)"
  by (simp add: isDecimalDigit_def of_char_digitChar)

lemma digitValue_digitChar: "d < 10 \<Longrightarrow> digitValue (digitChar d) = Some d"
  by (simp add: digitValue_def of_char_digitChar)

lemma digits_nonempty: "digits n \<noteq> []"
  by (subst digits.simps) simp

lemma digits_all_digits: "c \<in> set (digits n) \<Longrightarrow> isDecimalDigit c"
proof (induction n arbitrary: c rule: digits.induct)
  case (1 n)
  show ?case
  proof (cases "n < 10")
    case True
    with "1.prems" show ?thesis
      by (subst (asm) digits.simps) (simp add: isDecimalDigit_digitChar)
  next
    case False
    with "1.prems" have "c \<in> set (digits (n div 10)) \<or> c = digitChar (n mod 10)"
      by (subst (asm) digits.simps) auto
    then show ?thesis using "1.IH" [OF False] by (auto simp add: isDecimalDigit_digitChar)
  qed
qed

lemma mathValue_snoc:
  "mathValue R (z @ [c]) = mathValue R z * int R + (case digitValue c of Some v \<Rightarrow> int v | None \<Rightarrow> 0)"
  by (simp add: mathValue_def)

lemma mathValue_digits: "mathValue 10 (digits n) = int n"
proof (induction n rule: digits.induct)
  case (1 n)
  show ?case
  proof (cases "n < 10")
    case True
    then show ?thesis
      by (subst digits.simps) (simp add: mathValue_def digitValue_digitChar)
  next
    case False
    have "mathValue 10 (digits n) = mathValue 10 (digits (n div 10)) * 10 + int (n mod 10)"
      using False by (subst digits.simps) (simp add: mathValue_snoc digitValue_digitChar)
    also have "\<dots> = int (n div 10) * 10 + int (n mod 10)" using "1.IH" [OF False] by simp
    also have "\<dots> = int n" by (simp add: zdiv_int zmod_int)
    finally show ?thesis .
  qed
qed

lemma digit_not_white: "isDecimalDigit c \<Longrightarrow> \<not> isWhiteSpace c"
  by (auto simp add: isDecimalDigit_def isWhiteSpace_def)

lemma digit_radix10: "isDecimalDigit c \<Longrightarrow> isRadixDigit 10 c"
  by (auto simp add: isDecimalDigit_def isRadixDigit_def digitValue_def)

lemma digit_not_sign: "isDecimalDigit c \<Longrightarrow> c \<noteq> CHR ''-'' \<and> c \<noteq> CHR ''+'' \<and> c \<noteq> CHR ''x'' \<and> c \<noteq> CHR ''X''"
  by (auto simp add: isDecimalDigit_def)

lemma parseInt_digit_string:
  assumes "s \<noteq> []" and "\<forall>c\<in>set s. isDecimalDigit c"
  shows "parseInt s = Num (mathValue 10 s)"
proof -
  from assms obtain c cs where s: "s = c # cs" by (cases s) auto
  have c: "isDecimalDigit c" using assms(2) s by simp
  have w: "dropWhile isWhiteSpace s = s" using s digit_not_white [OF c] by simp
  have hdc: "hd s \<noteq> CHR ''-''" "hd s \<noteq> CHR ''+''" using s digit_not_sign [OF c] by simp_all
  have nx: "take 2 s \<noteq> ''0x''" "take 2 s \<noteq> ''0X''"
  proof -
    { fix x assume "take 2 s = [CHR ''0'', x]"
      then have "x \<in> set (take 2 s)" by simp
      then have "x \<in> set s" by (rule in_set_takeD)
      then have "isDecimalDigit x" using assms(2) by simp }
    then show "take 2 s \<noteq> ''0x''" "take 2 s \<noteq> ''0X''"
      using digit_not_sign by blast+
  qed
  have tw: "takeWhile (isRadixDigit 10) s = s"
    using assms(2) digit_radix10 by (simp add: takeWhile_eq_all_conv)
  show ?thesis
    using assms(1) by (simp add: parseInt_def Let_def w hdc nx tw)
qed

lemma parseInt_digits: "parseInt (digits n) = Num (int n)"
  using parseInt_digit_string [of "digits n"] digits_nonempty digits_all_digits
  by (simp add: mathValue_digits)


lemma filter_groupRev:
  "\<forall>c\<in>set sep. \<not> isDecimalDigit c \<Longrightarrow>
   filter isDecimalDigit (groupRev sep xs) = filter isDecimalDigit xs"
  by (induction sep xs rule: groupRev.induct) (simp_all add: filter_empty_conv)

lemma separator_no_digit: "\<forall>c\<in>set (groupSeparator loc). \<not> isDecimalDigit c"
  by (cases loc) (simp_all add: isDecimalDigit_def)

lemma filter_rev_groupRev:
  "filter isDecimalDigit (rev (groupRev (groupSeparator loc) (rev ds))) = filter isDecimalDigit ds"
proof -
  have "filter isDecimalDigit (rev (groupRev (groupSeparator loc) (rev ds)))
      = rev (filter isDecimalDigit (groupRev (groupSeparator loc) (rev ds)))"
    by (rule rev_filter [symmetric])
  also have "\<dots> = rev (filter isDecimalDigit (rev ds))"
    by (simp only: filter_groupRev [OF separator_no_digit])
  also have "\<dots> = filter isDecimalDigit ds"
    by (simp only: rev_filter rev_rev_ident)
  finally show ?thesis .
qed

lemma filter_grouped: "filter isDecimalDigit (grouped pf loc ds) = filter isDecimalDigit ds"
  by (cases "3 + minimumGroupingDigits pf loc \<le> length ds")
    (simp_all only: grouped_def filter_rev_groupRev if_True if_False)

lemma filter_toLocaleString:
  "filter isDecimalDigit (toLocaleString pf loc (int n)) = digits n"
proof -
  have "filter isDecimalDigit (digits n) = digits n"
    using digits_all_digits by (simp add: filter_id_conv)
  then show ?thesis by (simp add: toLocaleString_def filter_grouped)
qed

lemma toLocaleString_nonempty: "toLocaleString pf loc (int n) \<noteq> []"
proof
  assume "toLocaleString pf loc (int n) = []"
  then have "filter isDecimalDigit (toLocaleString pf loc (int n)) = []" by simp
  then show False by (simp add: filter_toLocaleString digits_nonempty)
qed

lemma parseFormattedNumber_toLocaleString:
  "parseFormattedNumber (toLocaleString pf loc (int n)) = int n"
  by (simp add: parseFormattedNumber_def toLocaleString_nonempty filter_toLocaleString parseInt_digits)

text \<open>
  C8. Formatting a non-negative integer that a JavaScript number holds exactly (at most
  \<open>2^53\<close>) in any of the three formats and parsing the text again gives the integer back,
  whatever the platform's grouping threshold and the configured default format are.
\<close>

theorem parseFormattedNumber_formatNumber:
  assumes "n \<le> 2 ^ 53" and "format \<in> {''comma'', ''space'', ''dot''}"
  shows "parseFormattedNumber (formatNumber pf cfg (of_nat n) (Some format)) = int n"
  by (simp add: formatNumber_def Let_def Math_round_of_nat parseFormattedNumber_toLocaleString)

theorem parseFormattedNumber_formatNumber_witness:
  "(1234567::nat) \<le> 2 ^ 53 \<and> ''dot'' \<in> {''comma'', ''space'', ''dot''}
   \<and> formatNumber samplePlatform sampleConfig (of_nat 1234567) (Some ''dot'') = ''1.234.567''
   \<and> parseFormattedNumber (formatNumber samplePlatform sampleConfig (of_nat 1234567) (Some ''dot''))
       = 1234567"
proof -
  have f: "formatNumber samplePlatform sampleConfig (of_nat 1234567) (Some ''dot'') = ''1.234.567''"
    by (simp add: formatNumber_def Math_round_numeral toLocaleString_def grouped_def
        samplePlatform_def digits.simps digitChar_simps)
  have h: "(1234567::nat) \<le> 2 ^ 53" by simp
  have m: "''dot'' \<in> {''comma'', ''space'', ''dot''}" by simp
  from parseFormattedNumber_formatNumber [OF h m, of samplePlatform sampleConfig] f h m
  show ?thesis by simp
qed

section \<open>The payments list\<close>

lemma set_insertSorted: "set (insertSorted cmp x xs) = insert x (set xs)"
  by (induction xs) auto

lemma mset_insertSorted: "mset (insertSorted cmp x xs) = add_mset x (mset xs)"
  by (induction xs) auto

lemma mset_jsSort: "mset (jsSort cmp xs) = mset xs"
  by (induction xs) (simp_all add: jsSort_def mset_insertSorted)

lemma jsSort_Nil: "jsSort cmp [] = []"
  by (simp add: jsSort_def)

lemma jsSort_Nil_iff: "(jsSort cmp xs = []) = (xs = [])"
  using mset_jsSort [of cmp xs] by (metis mset_zero_iff)

lemma sorted_insertSorted:
  "sorted_wrt (\<lambda>a b. total b \<le> total a) xs \<Longrightarrow>
   sorted_wrt (\<lambda>a b. total b \<le> total a) (insertSorted byTotalDescending x xs)"
  by (induction xs) (auto simp add: set_insertSorted byTotalDescending_def)

lemma sorted_jsSort:
  "sorted_wrt (\<lambda>a b. total b \<le> total a) (jsSort byTotalDescending xs)"
  by (induction xs) (simp_all add: jsSort_def sorted_insertSorted)

lemma sorted_copy:
  assumes "r < length store"
  shows "sortInPlace cmp (fst (spreadCopy store r)) (snd (spreadCopy store r)) =
         store @ [jsSort cmp (store ! r)]"
  using assms by (simp add: sortInPlace_def spreadCopy_def nth_append)

lemma display_items:
  assumes "payments c < length store"
  shows "updatePaymentsDisplay pf app (Some c) store =
     (\<lparr>totalPaidText = formatNumber pf (config app) (totalPaid c) None @ '' '' @ strOr (currency (config app)) ''ISK'',
       totalSitesText = (if totalSites c = 0 then ''0'' else intToString (totalSites c)),
       avgPerSiteText = (case avgPerSite c of
                           Finite a \<Rightarrow> formatNumber pf (config app) a None
                         | NonFinite \<Rightarrow> nonFiniteString pf (totalPaid c)) @ '' '' @ strOr (currency (config app)) ''ISK'',
       paymentsList = (if store ! payments c = [] then NoPayments else PaymentItems
          (map (paymentItemOf (\<lambda>x. formatNumber pf (config app) x None) ''Salvager''
                 (strOr (currency (config app)) ''ISK''))
               (jsSort byTotalDescending (store ! payments c))))\<rparr>,
      if store ! payments c = [] then store
      else store @ [jsSort byTotalDescending (store ! payments c)])"
  using sorted_copy [OF assms, of byTotalDescending]
  by (simp add: updatePaymentsDisplay_def Let_def split: prod.splits) (simp add: spreadCopy_def)

lemma display_items_legacy:
  assumes "payments c < length store"
  shows "updatePaymentsDisplay_legacy pf star app (Some c) store =
     (\<lparr>totalPaidText = defaultLocaleString pf (Math_round (totalPaid c)) @ '' '' @ strOr (currency (config app)) ''ISK'',
       totalSitesText = (if totalSites c = 0 then ''0'' else intToString (totalSites c)),
       avgPerSiteText = (case avgPerSite c of
                           Finite a \<Rightarrow> defaultLocaleString pf (Math_round a)
                         | NonFinite \<Rightarrow> nonFiniteString pf (totalPaid c)) @ '' '' @ strOr (currency (config app)) ''ISK'',
       paymentsList = (if store ! payments c = [] then NoPayments else PaymentItems
          (map (paymentItemOf (\<lambda>x. defaultLocaleString pf (Math_round x)) star
                 (strOr (currency (config app)) ''ISK''))
               (jsSort byTotalDescending (store ! payments c))))\<rparr>,
      if store ! payments c = [] then store
      else store @ [jsSort byTotalDescending (store ! payments c)])"
  using sorted_copy [OF assms, of byTotalDescending]
  by (simp add: updatePaymentsDisplay_legacy_def Let_def split: prod.splits) (simp add: spreadCopy_def)

text \<open>
  C4. The payments list renders the entries of \<^verbatim>\<open>calculations.payments\<close> in the order of
  the sorted copy: a rearrangement of the entries in which no entry has a smaller total
  than a later one. The sort runs on a new array; the arrays the store held before, the
  payments array among them, are as they were. Both scripts do so.
\<close>

theorem updatePaymentsDisplay_sorted_copy:
  assumes "payments c < length store"
  shows "itemsOf (paymentsList (fst (updatePaymentsDisplay pf app (Some c) store))) =
           map (paymentItemOf (\<lambda>x. formatNumber pf (config app) x None) ''Salvager''
                  (strOr (currency (config app)) ''ISK''))
               (jsSort byTotalDescending (store ! payments c))
       \<and> itemsOf (paymentsList (fst (updatePaymentsDisplay_legacy pf star app (Some c) store))) =
           map (paymentItemOf (\<lambda>x. defaultLocaleString pf (Math_round x)) star
                  (strOr (currency (config app)) ''ISK''))
               (jsSort byTotalDescending (store ! payments c))
       \<and> sorted_wrt (\<lambda>a b. total b \<le> total a) (jsSort byTotalDescending (store ! payments c))
       \<and> mset (jsSort byTotalDescending (store ! payments c)) = mset (store ! payments c)
       \<and> take (length store) (snd (updatePaymentsDisplay pf app (Some c) store)) = store
       \<and> take (length store) (snd (updatePaymentsDisplay_legacy pf star app (Some c) store)) = store
       \<and> snd (updatePaymentsDisplay pf app (Some c) store) ! payments c = store ! payments c
       \<and> snd (updatePaymentsDisplay_legacy pf star app (Some c) store) ! payments c = store ! payments c"
  using assms
  by (simp add: display_items [OF assms] display_items_legacy [OF assms] sorted_jsSort mset_jsSort
      jsSort_Nil_iff jsSort_Nil nth_append)


lemma sample_sorted:
  "jsSort byTotalDescending samplePayments = [samplePayments ! 1, samplePayments ! 0, samplePayments ! 2]"
  by (simp add: jsSort_def samplePayments_def byTotalDescending_def)

theorem updatePaymentsDisplay_sorted_copy_witness:
  "payments sampleCalculations < length [samplePayments]
   \<and> map itemName (itemsOf (paymentsList (fst (updatePaymentsDisplay samplePlatform sampleApp
        (Some sampleCalculations) [samplePayments])))) = [''BobSalvager'', ''Alice'', ''Carol'']
   \<and> map itemName (itemsOf (paymentsList (fst (updatePaymentsDisplay_legacy samplePlatform '' *''
        sampleApp (Some sampleCalculations) [samplePayments])))) = [''Bob *'', ''Alice'', ''Carol'']
   \<and> map payment.total (jsSort byTotalDescending samplePayments) = [1000000, 250000, 250000]
   \<and> snd (updatePaymentsDisplay samplePlatform sampleApp (Some sampleCalculations) [samplePayments])
        ! 0 = samplePayments"
proof -
  have h: "payments sampleCalculations < length [samplePayments]"
    by (simp add: sampleCalculations_def)
  have p: "[samplePayments] ! payments sampleCalculations = samplePayments"
    by (simp add: sampleCalculations_def)
  have n: "map (\<lambda>p. payment.name p @ (if payment.isSalvager p then m else []))
             [samplePayments ! 1, samplePayments ! 0, samplePayments ! 2]
           = [''Bob'' @ m, ''Alice'', ''Carol'']" for m
    by (simp add: samplePayments_def)
  have t: "map payment.total [samplePayments ! 1, samplePayments ! 0, samplePayments ! 2]
           = [1000000, 250000, 250000]"
    by (simp add: samplePayments_def)
  from updatePaymentsDisplay_sorted_copy [OF h, of samplePlatform sampleApp "'' *''"] h n [of "''Salvager''"] n [of "'' *''"] t
  show ?thesis
    by (simp add: p sample_sorted paymentItemOf_def comp_def sampleCalculations_def)
qed

section \<open>Adding members\<close>

lemma trim_Nil: "trim [] = []"
  by (simp add: trim_def)

lemma piecesOf_delimiter:
  "isDelimiter c \<Longrightarrow> (\<forall>x\<in>set p. \<not> isDelimiter x) \<Longrightarrow> piecesOf (p @ c # r) = p # piecesOf r"
  by (induction p) simp_all

lemma piecesOf_plain: "\<forall>x\<in>set p. \<not> isDelimiter x \<Longrightarrow> piecesOf p = [p]"
  by (induction p) simp_all

lemma pieces_skip_delimiters:
  "\<forall>x\<in>set ds. isDelimiter x \<Longrightarrow>
   filter (\<lambda>n. n \<noteq> []) (piecesOf (ds @ r)) = filter (\<lambda>n. n \<noteq> []) (piecesOf r)"
  by (induction ds) simp_all

lemma split_pieces:
  "filter (\<lambda>n. n \<noteq> []) (splitDelimiters s) = filter (\<lambda>n. n \<noteq> []) (piecesOf s)"
proof (induction s rule: splitDelimiters.induct)
  case (1 s)
  let ?piece = "takeWhile (\<lambda>c. \<not> isDelimiter c) s"
  let ?rest = "dropWhile (\<lambda>c. \<not> isDelimiter c) s"
  have s: "s = ?piece @ ?rest" by simp
  have piece: "\<forall>x\<in>set ?piece. \<not> isDelimiter x" by (auto dest: set_takeWhileD)
  show ?case
  proof (cases "?rest = []")
    case True
    have sp: "splitDelimiters s = [?piece]"
      by (subst splitDelimiters.simps [of s], unfold Let_def) (simp add: True)
    have "piecesOf s = piecesOf ?piece" using s True by simp
    also have "\<dots> = [?piece]" using piece by (rule piecesOf_plain)
    finally show ?thesis using sp by simp
  next
    case False
    then obtain c r where r: "?rest = c # r" by (cases ?rest) auto
    then have c: "isDelimiter c" by (metis hd_dropWhile list.sel(1) list.distinct(1))
    let ?next = "dropWhile isDelimiter ?rest"
    have sp: "splitDelimiters s = ?piece # splitDelimiters ?next"
      by (subst splitDelimiters.simps [of s], unfold Let_def) (simp only: False if_False)
    have nx: "?next = dropWhile isDelimiter r" unfolding r using c by simp
    have "piecesOf s = piecesOf (?piece @ c # r)" using s r by simp
    also have "\<dots> = ?piece # piecesOf r" using c piece by (rule piecesOf_delimiter)
    finally have ps: "piecesOf s = ?piece # piecesOf r" .
    have "filter (\<lambda>n. n \<noteq> []) (piecesOf r) =
          filter (\<lambda>n. n \<noteq> []) (piecesOf (takeWhile isDelimiter r @ dropWhile isDelimiter r))"
      by simp
    also have "\<dots> = filter (\<lambda>n. n \<noteq> []) (piecesOf (dropWhile isDelimiter r))"
      by (rule pieces_skip_delimiters) (auto dest: set_takeWhileD)
    also have "\<dots> = filter (\<lambda>n. n \<noteq> []) (splitDelimiters ?next)"
      unfolding nx [symmetric] using "1.IH" [OF refl refl False] by simp
    finally show ?thesis unfolding sp ps by simp
  qed
qed

lemma filter_trim:
  "filter (\<lambda>n. n \<noteq> []) (map trim xs) =
   filter (\<lambda>n. n \<noteq> []) (map trim (filter (\<lambda>n. n \<noteq> []) xs))"
  by (induction xs) (simp_all add: trim_Nil)

lemma names_of_split:
  "filter (\<lambda>n. n \<noteq> []) (map trim (splitDelimiters raw)) = namesIn raw"
  unfolding namesIn_def
  by (subst filter_trim, subst (2) filter_trim) (simp only: split_pieces)

lemma pieces_delimited:
  assumes "\<forall>p\<in>set ps. \<forall>c\<in>set p. \<not> isDelimiter c"
    and "\<forall>d\<in>set seps. d \<noteq> [] \<and> (\<forall>c\<in>set d. isDelimiter c)"
  shows "filter (\<lambda>n. n \<noteq> []) (piecesOf (delimited ps seps)) = filter (\<lambda>n. n \<noteq> []) ps"
  using assms
proof (induction ps seps rule: delimited.induct)
  case (1 seps)
  then show ?case by simp
next
  case (2 n seps)
  then show ?case by (simp add: piecesOf_plain)
next
  case (3 n m ns)
  have "piecesOf (n @ CHR '','' # delimited (m # ns) []) = n # piecesOf (delimited (m # ns) [])"
    using 3(2) by (intro piecesOf_delimiter) (simp_all add: isDelimiter_def)
  then show ?case using 3 by simp
next
  case (4 n m ns d ds)
  from 4(3) obtain c cs where d: "d = c # cs" "isDelimiter c" "\<forall>x\<in>set cs. isDelimiter x"
    by (cases d) auto
  have "piecesOf (n @ c # (cs @ delimited (m # ns) ds)) = n # piecesOf (cs @ delimited (m # ns) ds)"
    using d(2) 4(2) by (intro piecesOf_delimiter) simp_all
  moreover have "filter (\<lambda>n. n \<noteq> []) (piecesOf (cs @ delimited (m # ns) ds)) =
      filter (\<lambda>n. n \<noteq> []) (piecesOf (delimited (m # ns) ds))"
    using d(3) by (rule pieces_skip_delimiters)
  ultimately show ?case using 4 d(1) by simp
qed

lemma names_delimited:
  assumes "\<forall>p\<in>set ps. \<forall>c\<in>set p. \<not> isDelimiter c"
    and "\<forall>d\<in>set seps. d \<noteq> [] \<and> (\<forall>c\<in>set d. isDelimiter c)"
  shows "namesIn (delimited ps seps) = filter (\<lambda>n. n \<noteq> []) (map trim ps)"
  unfolding namesIn_def
  by (subst filter_trim, subst (2) filter_trim) (simp only: pieces_delimited [OF assms])

text \<open>
  C7. For every input text, \<^verbatim>\<open>addMember\<close> appends one member per name that the text holds,
  in the order of the text, each with the chosen salvager flag and a newly drawn id, after
  the members that were there; with \<open>k\<close> names the roster grows by \<open>k\<close>, and with no name
  \<^verbatim>\<open>appData\<close> is unchanged. The names of a text put together from pieces and separators
  (runs of commas and newlines, also at its ends) are its pieces that are not blank,
  trimmed. Both scripts do so.
\<close>

theorem addMember_appends_names:
  "snd (addMember generateId raw flag app) =
     app\<lparr>members := members app @
       map (\<lambda>(k, n). \<lparr>member.name = n, isSalvager = flag, id' = generateId k\<rparr>)
           (enumerate 0 (namesIn raw))\<rparr>
   \<and> length (members (snd (addMember generateId raw flag app))) =
       length (members app) + length (namesIn raw)
   \<and> take (length (members app)) (members (snd (addMember generateId raw flag app))) =
       members app
   \<and> (namesIn raw = [] \<longrightarrow> snd (addMember generateId raw flag app) = app)
   \<and> ((\<forall>p\<in>set ps. \<forall>c\<in>set p. \<not> isDelimiter c)
        \<and> (\<forall>d\<in>set seps. d \<noteq> [] \<and> (\<forall>c\<in>set d. isDelimiter c)) \<longrightarrow>
      namesIn (delimited ps seps) = filter (\<lambda>n. n \<noteq> []) (map trim ps))"
proof -
  have e: "snd (addMember generateId raw flag app) =
     app\<lparr>members := members app @
       map (\<lambda>(k, n). \<lparr>member.name = n, isSalvager = flag, id' = generateId k\<rparr>)
           (enumerate 0 (namesIn raw))\<rparr>"
    by (simp add: addMember_def Let_def names_of_split)
  show ?thesis
    unfolding e using names_delimited [of ps seps] by simp
qed


lemma sample_names:
  "namesIn ('' Alice, ,Bob'' @ [CHR 0x0A, CHR 0x0A] @ ''Carol,'' @ [CHR 0x0A]) =
     [''Alice'', ''Bob'', ''Carol'']"
  "namesIn '' , '' = []"
  by (simp_all add: namesIn_def trim_def isWhiteSpace_def isDelimiter_def)

theorem addMember_appends_names_witness:
  "namesIn ('' Alice, ,Bob'' @ [CHR 0x0A, CHR 0x0A] @ ''Carol,'' @ [CHR 0x0A]) =
     [''Alice'', ''Bob'', ''Carol'']
   \<and> map member.name (members (snd (addMember (\<lambda>k. IdStr (''new'' @ digits k))
      ('' Alice, ,Bob'' @ [CHR 0x0A, CHR 0x0A] @ ''Carol,'' @ [CHR 0x0A]) True sampleApp))) =
     [''Alice'', ''Bob'', ''Alice'', ''Bob'', ''Carol'']
   \<and> map member.isSalvager (members (snd (addMember (\<lambda>k. IdStr (''new'' @ digits k))
      ('' Alice, ,Bob'' @ [CHR 0x0A, CHR 0x0A] @ ''Carol,'' @ [CHR 0x0A]) True sampleApp))) =
     [False, True, True, True, True]
   \<and> namesIn '' , '' = []
   \<and> snd (addMember (\<lambda>k. IdStr (''new'' @ digits k)) '' , '' True sampleApp) = sampleApp
   \<and> namesIn (delimited ['' Alice'', '' '', ''Bob'', ''Carol'', []]
        ['','', '','', [CHR 0x0A, CHR 0x0A], '','' @ [CHR 0x0A]]) = [''Alice'', ''Bob'', ''Carol'']"
proof -
  let ?raw = "'' Alice, ,Bob'' @ [CHR 0x0A, CHR 0x0A] @ ''Carol,'' @ [CHR 0x0A]"
  let ?gen = "\<lambda>k. IdStr (''new'' @ digits k)"
  let ?ps = "['' Alice'', '' '', ''Bob'', ''Carol'', []]"
  let ?seps = "['','', '','', [CHR 0x0A, CHR 0x0A], '','' @ [CHR 0x0A]]"
  have h: "(\<forall>p\<in>set ?ps. \<forall>c\<in>set p. \<not> isDelimiter c)
        \<and> (\<forall>d\<in>set ?seps. d \<noteq> [] \<and> (\<forall>c\<in>set d. isDelimiter c))"
    by (simp add: isDelimiter_def)
  have t: "filter (\<lambda>n. n \<noteq> []) (map trim ?ps) = [''Alice'', ''Bob'', ''Carol'']"
    by (simp add: trim_def isWhiteSpace_def)
  note a = addMember_appends_names [of ?gen ?raw True sampleApp ?ps ?seps]
  note b = addMember_appends_names [of ?gen "'' , ''" True sampleApp ?ps ?seps]
  from a have m: "members (snd (addMember ?gen ?raw True sampleApp)) =
      sampleMembers @ map (\<lambda>(k, n). \<lparr>member.name = n, isSalvager = True, id' = ?gen k\<rparr>)
           (enumerate 0 [''Alice'', ''Bob'', ''Carol''])"
    by (simp only: sample_names) (simp add: sampleApp_def)
  from b have u: "snd (addMember ?gen '' , '' True sampleApp) = sampleApp"
    using sample_names(2) by blast
  from a h t have d: "namesIn (delimited ?ps ?seps) = [''Alice'', ''Bob'', ''Carol'']"
    by (simp only:)
  have n: "map member.name (members (snd (addMember ?gen ?raw True sampleApp))) =
      [''Alice'', ''Bob'', ''Alice'', ''Bob'', ''Carol'']"
    unfolding m by (simp add: sampleMembers_def enumerate_eq_zip upt_rec)
  have f: "map member.isSalvager (members (snd (addMember ?gen ?raw True sampleApp))) =
      [False, True, True, True, True]"
    unfolding m by (simp add: sampleMembers_def enumerate_eq_zip upt_rec)
  from sample_names n f u d show ?thesis by blast
qed


section \<open>Saving the configuration\<close>

lemma intToString_nat: "intToString (int i) = digits i"
  by (simp add: intToString_def)

lemma mathValue_nonneg: "0 \<le> mathValue R z"
proof -
  have "0 \<le> a \<Longrightarrow>
      0 \<le> foldl (\<lambda>acc c. acc * int R + (case digitValue c of Some v \<Rightarrow> int v | None \<Rightarrow> 0)) a z" for a
    by (induction z arbitrary: a) (auto split: option.splits)
  then show ?thesis by (simp add: mathValue_def)
qed

lemma parseFormattedNumber_nonneg: "0 \<le> parseFormattedNumber s"
proof (cases "filter isDecimalDigit s = []")
  case True
  then show ?thesis by (simp add: parseFormattedNumber_def parseInt_def)
next
  case False
  have "\<forall>c\<in>set (filter isDecimalDigit s). isDecimalDigit c" by simp
  from parseInt_digit_string [OF False this] mathValue_nonneg [of 10 "filter isDecimalDigit s"]
  show ?thesis by (simp add: parseFormattedNumber_def)
qed

lemma digits_inject:
  assumes "digits a = digits b"
  shows "a = b"
proof -
  have "int a = mathValue 10 (digits a)" by (simp only: mathValue_digits)
  also have "\<dots> = mathValue 10 (digits b)" by (simp only: assms)
  also have "\<dots> = int b" by (simp only: mathValue_digits)
  finally show ?thesis by simp
qed

lemma saveLevels_Cons:
  "\<exists>names'. saveLevels form (i # rest) (vals, names) =
     (if invalidLevel form i then (Some i, vals, names)
      else saveLevels form rest (storeLevel form vals i, names'))"
  by (rule exI [where x = "names(digits i \<mapsto>
        strOr (Some (trim (case levelNameInput form i of
                             None \<Rightarrow> ''Sitio '' @ digits i | Some v \<Rightarrow> v)))
              (''Sitio '' @ digits i))"])
    (simp add: Let_def invalidLevel_def parsedLevel_def storeLevel_def intToString_nat)

lemma saveLevels_result:
  "fst (saveLevels form js (vals, names)) = find (invalidLevel form) js
   \<and> fst (snd (saveLevels form js (vals, names))) =
       foldl (storeLevel form) vals (takeWhile (\<lambda>j. \<not> invalidLevel form j) js)"
proof (induction js arbitrary: vals names)
  case Nil
  then show ?case by simp
next
  case (Cons i js)
  from saveLevels_Cons [of form i js vals names] obtain names' where
    e: "saveLevels form (i # js) (vals, names) =
     (if invalidLevel form i then (Some i, vals, names)
      else saveLevels form js (storeLevel form vals i, names'))" by blast
  show ?case
    unfolding e using Cons.IH [of "storeLevel form vals i" names'] by simp
qed

lemma storeLevel_apply:
  "storeLevel form m j k = (if k = digits j then Some (parsedLevel form j) else m k)"
  by (simp add: storeLevel_def)

lemma foldl_storeLevel_other:
  "\<forall>j\<in>set js. digits j \<noteq> k \<Longrightarrow> foldl (storeLevel form) vals js k = vals k"
proof (induction js arbitrary: vals rule: rev_induct)
  case Nil
  then show ?case by simp
next
  case (snoc x xs)
  define m where "m = foldl (storeLevel form) vals xs"
  have "foldl (storeLevel form) vals (xs @ [x]) k = storeLevel form m x k"
    by (simp only: m_def foldl_append foldl.simps)
  also have "\<dots> = m k" using snoc.prems by (auto simp add: storeLevel_apply)
  also have "\<dots> = vals k" unfolding m_def using snoc by simp
  finally show ?case .
qed

lemma foldl_storeLevel_hit:
  "j \<in> set js \<Longrightarrow> foldl (storeLevel form) vals js (digits j) = Some (parsedLevel form j)"
proof (induction js arbitrary: vals rule: rev_induct)
  case Nil
  then show ?case by simp
next
  case (snoc x xs)
  define m where "m = foldl (storeLevel form) vals xs"
  have e: "foldl (storeLevel form) vals (xs @ [x]) (digits j) = storeLevel form m x (digits j)"
    by (simp only: m_def foldl_append foldl.simps)
  show ?case
  proof (cases "digits x = digits j")
    case True
    then have "x = j" by (rule digits_inject)
    then show ?thesis unfolding e by (simp add: storeLevel_apply)
  next
    case False
    then have "j \<in> set xs" using snoc.prems by auto
    then have "m (digits j) = Some (parsedLevel form j)" unfolding m_def by (rule snoc.IH)
    then show ?thesis unfolding e using False by (auto simp add: storeLevel_apply)
  qed
qed

lemma foldl_storeLevel_range:
  "foldl (storeLevel form) vals js k = Some v \<Longrightarrow>
   vals k = Some v \<or> (\<exists>j\<in>set js. v = parsedLevel form j)"
proof (induction js arbitrary: vals v rule: rev_induct)
  case Nil
  then show ?case by simp
next
  case (snoc x xs)
  define m where "m = foldl (storeLevel form) vals xs"
  have e: "foldl (storeLevel form) vals (xs @ [x]) k = storeLevel form m x k"
    by (simp only: m_def foldl_append foldl.simps)
  show ?case
  proof (cases "k = digits x")
    case True
    then have "v = parsedLevel form x" using snoc.prems unfolding e by (simp add: storeLevel_apply)
    then show ?thesis by simp
  next
    case False
    then have "m k = Some v" using snoc.prems unfolding e by (simp add: storeLevel_apply)
    then have "vals k = Some v \<or> (\<exists>j\<in>set xs. v = parsedLevel form j)"
      unfolding m_def by (rule snoc.IH)
    then show ?thesis by auto
  qed
qed


lemma find_upt_Some:
  assumes "find P [a..<b] = Some i"
  shows "takeWhile (\<lambda>j. \<not> P j) [a..<b] = [a..<i] \<and> P i \<and> a \<le> i \<and> i < b"
proof -
  from assms obtain n where n: "n < length [a..<b]" "P ([a..<b] ! n)" "i = [a..<b] ! n"
      "\<forall>j<n. \<not> P ([a..<b] ! j)"
    unfolding find_Some_iff by blast
  then have i: "i = a + n" "a + n < b" by auto
  have "takeWhile (\<lambda>j. \<not> P j) [a..<b] = take n [a..<b]"
    using n by (intro takeWhile_eq_take_P_nth) auto
  also have "\<dots> = [a..<i]" using i by (simp add: take_upt)
  finally show ?thesis using n i by simp
qed

lemma find_None_takeWhile:
  "find P xs = None \<Longrightarrow> takeWhile (\<lambda>j. \<not> P j) xs = xs"
  by (simp add: find_None_iff takeWhile_eq_all_conv)

lemma saveConfig_facts:
  fixes form app
  defines "js \<equiv> [1..<11]"
  shows "levelValues (config (snd (saveConfig form app))) =
           foldl (storeLevel form) (levelValues (config app))
             (takeWhile (\<lambda>j. \<not> invalidLevel form j) js)"
    and "fst (saveConfig form app) =
           (case find (invalidLevel form) js of
              None \<Rightarrow> [SaveData, ShowMessage configSavedMessage ''success'']
            | Some i \<Rightarrow> [ShowMessage (invalidLevelMessage i) ''error''])"
    and "find (invalidLevel form) js \<noteq> None \<Longrightarrow>
           hasSalvager (config (snd (saveConfig form app))) = hasSalvager (config app)
         \<and> salvagerPercent (config (snd (saveConfig form app))) = salvagerPercent (config app)
         \<and> currency (config (snd (saveConfig form app))) = currency (config app)
         \<and> autoCalculate (config (snd (saveConfig form app))) = autoCalculate (config app)
         \<and> members (snd (saveConfig form app)) = members app
         \<and> sites (snd (saveConfig form app)) = sites app"
proof -
  define names0 where
    "names0 = (case levelNames (config app) of None \<Rightarrow> Map.empty | Some names \<Rightarrow> names)"
  obtain bad vals1 names1 where
    e: "saveLevels form js (levelValues (config app), names0) = (bad, vals1, names1)"
    using prod_cases3 by blast
  from saveLevels_result [of form js "levelValues (config app)" names0]
  have b: "find (invalidLevel form) js = bad"
    and v: "foldl (storeLevel form) (levelValues (config app))
             (takeWhile (\<lambda>j. \<not> invalidLevel form j) js) = vals1"
    unfolding e by simp_all
  have S: "saveConfig form app =
     (case bad of
        None \<Rightarrow> ([SaveData, ShowMessage configSavedMessage ''success''],
                 app\<lparr>config := (config app)\<lparr>levelValues := vals1, levelNames := Some names1,
                    hasSalvager := hasSalvagerBox form,
                    salvagerPercent := salvagerPercentInput form,
                    currency := Some (currencyInput form),
                    autoCalculate := autoCalculateBox form\<rparr>\<rparr>)
      | Some i \<Rightarrow> ([ShowMessage (invalidLevelMessage i) ''error''],
                   app\<lparr>config := (config app)\<lparr>levelValues := vals1, levelNames := Some names1\<rparr>\<rparr>))"
    unfolding saveConfig_def Let_def js_def [symmetric] names0_def [symmetric] e
    by (simp only: prod.case)
  show "levelValues (config (snd (saveConfig form app))) =
           foldl (storeLevel form) (levelValues (config app))
             (takeWhile (\<lambda>j. \<not> invalidLevel form j) js)"
    unfolding S v by (cases bad) simp_all
  show "fst (saveConfig form app) =
           (case find (invalidLevel form) js of
              None \<Rightarrow> [SaveData, ShowMessage configSavedMessage ''success'']
            | Some i \<Rightarrow> [ShowMessage (invalidLevelMessage i) ''error''])"
    unfolding S b by (cases bad) simp_all
  show "find (invalidLevel form) js \<noteq> None \<Longrightarrow>
           hasSalvager (config (snd (saveConfig form app))) = hasSalvager (config app)
         \<and> salvagerPercent (config (snd (saveConfig form app))) = salvagerPercent (config app)
         \<and> currency (config (snd (saveConfig form app))) = currency (config app)
         \<and> autoCalculate (config (snd (saveConfig form app))) = autoCalculate (config app)
         \<and> members (snd (saveConfig form app)) = members app
         \<and> sites (snd (saveConfig form app)) = sites app"
    unfolding S b by (cases bad) simp_all
qed

text \<open>
  What \<^verbatim>\<open>saveConfig\<close> does with the ten levels. Every value it stores into
  \<^verbatim>\<open>config.levelValues\<close> is an integer from 0 to 999,999,999,999. When the parsed input of
  some level is outside that range, the script reports an error for the first such level
  \<open>i\<close> and does not call \<^verbatim>\<open>saveData()\<close>; the entries of level \<open>i\<close> and of every later
  level, the other settings, the roster and the sites are as before, and the entries of the
  levels before \<open>i\<close> hold their newly parsed values. When every level is in range the
  configuration is saved with the ten parsed values.
\<close>

lemma saveConfig_levels:
  fixes form app
  defines "r \<equiv> saveConfig form app"
  shows "(\<forall>k v. levelValues (config (snd r)) k = Some v \<longrightarrow>
            levelValues (config app) k = Some v \<or> (0 \<le> v \<and> v \<le> 999999999999))
    \<and> (\<forall>i. find (invalidLevel form) [1..<11] = Some i \<longrightarrow>
          fst r = [ShowMessage (invalidLevelMessage i) ''error''] \<and> \<not> accepted r
          \<and> (\<forall>j. i \<le> j \<longrightarrow>
                levelValues (config (snd r)) (digits j) = levelValues (config app) (digits j))
          \<and> (\<forall>j. 1 \<le> j \<and> j < i \<longrightarrow>
                levelValues (config (snd r)) (digits j) = Some (parsedLevel form j))
          \<and> hasSalvager (config (snd r)) = hasSalvager (config app)
          \<and> salvagerPercent (config (snd r)) = salvagerPercent (config app)
          \<and> currency (config (snd r)) = currency (config app)
          \<and> autoCalculate (config (snd r)) = autoCalculate (config app)
          \<and> members (snd r) = members app \<and> sites (snd r) = sites app)
    \<and> (find (invalidLevel form) [1..<11] = None \<longrightarrow>
          accepted r
          \<and> (\<forall>j. 1 \<le> j \<and> j \<le> 10 \<longrightarrow>
                levelValues (config (snd r)) (digits j) = Some (parsedLevel form j)))"
proof -
  define js where "js = [1..<11::nat]"
  define ok where "ok = takeWhile (\<lambda>j. \<not> invalidLevel form j) js"
  have lv: "levelValues (config (snd r)) = foldl (storeLevel form) (levelValues (config app)) ok"
    unfolding r_def ok_def js_def by (rule saveConfig_facts(1))
  have fx: "fst r =
           (case find (invalidLevel form) js of
              None \<Rightarrow> [SaveData, ShowMessage configSavedMessage ''success'']
            | Some i \<Rightarrow> [ShowMessage (invalidLevelMessage i) ''error''])"
    unfolding r_def js_def by (rule saveConfig_facts(2))
  have fr: "hasSalvager (config (snd r)) = hasSalvager (config app)
         \<and> salvagerPercent (config (snd r)) = salvagerPercent (config app)
         \<and> currency (config (snd r)) = currency (config app)
         \<and> autoCalculate (config (snd r)) = autoCalculate (config app)
         \<and> members (snd r) = members app
         \<and> sites (snd r) = sites app" if "find (invalidLevel form) js \<noteq> None"
    using that unfolding r_def js_def by (rule saveConfig_facts(3))
  have A: "\<forall>k v. levelValues (config (snd r)) k = Some v \<longrightarrow>
            levelValues (config app) k = Some v \<or> (0 \<le> v \<and> v \<le> 999999999999)"
  proof (intro allI impI)
    fix k v
    assume "levelValues (config (snd r)) k = Some v"
    then have "levelValues (config app) k = Some v \<or> (\<exists>j\<in>set ok. v = parsedLevel form j)"
      unfolding lv by (rule foldl_storeLevel_range)
    moreover have "0 \<le> parsedLevel form j \<and> parsedLevel form j \<le> 999999999999"
      if "j \<in> set ok" for j
      using set_takeWhileD [OF that [unfolded ok_def]] by (simp add: invalidLevel_def)
    ultimately show "levelValues (config app) k = Some v \<or> (0 \<le> v \<and> v \<le> 999999999999)"
      by blast
  qed
  have B: "fst r = [ShowMessage (invalidLevelMessage i) ''error''] \<and> \<not> accepted r
          \<and> (\<forall>j. i \<le> j \<longrightarrow>
                levelValues (config (snd r)) (digits j) = levelValues (config app) (digits j))
          \<and> (\<forall>j. 1 \<le> j \<and> j < i \<longrightarrow>
                levelValues (config (snd r)) (digits j) = Some (parsedLevel form j))
          \<and> hasSalvager (config (snd r)) = hasSalvager (config app)
          \<and> salvagerPercent (config (snd r)) = salvagerPercent (config app)
          \<and> currency (config (snd r)) = currency (config app)
          \<and> autoCalculate (config (snd r)) = autoCalculate (config app)
          \<and> members (snd r) = members app \<and> sites (snd r) = sites app"
    if f: "find (invalidLevel form) js = Some i" for i
  proof -
    have tw: "ok = [1..<i]"
      unfolding ok_def js_def using find_upt_Some [OF f [unfolded js_def]] by (rule conjunct1)
    have e: "fst r = [ShowMessage (invalidLevelMessage i) ''error'']"
      unfolding fx f by simp
    then have na: "\<not> accepted r" by (simp add: accepted_def)
    have hi: "levelValues (config (snd r)) (digits j) = levelValues (config app) (digits j)"
      if "i \<le> j" for j
    proof -
      have "\<forall>j'\<in>set ok. digits j' \<noteq> digits j"
        unfolding tw using that digits_inject by fastforce
      then show ?thesis unfolding lv by (rule foldl_storeLevel_other)
    qed
    have lo: "levelValues (config (snd r)) (digits j) = Some (parsedLevel form j)"
      if "1 \<le> j \<and> j < i" for j
    proof -
      have "j \<in> set ok" unfolding tw using that by simp
      then show ?thesis unfolding lv by (rule foldl_storeLevel_hit)
    qed
    from f have "find (invalidLevel form) js \<noteq> None" by simp
    from fr [OF this] e na hi lo show ?thesis by blast
  qed
  have C: "accepted r
          \<and> (\<forall>j. 1 \<le> j \<and> j \<le> 10 \<longrightarrow>
                levelValues (config (snd r)) (digits j) = Some (parsedLevel form j))"
    if f: "find (invalidLevel form) js = None"
  proof -
    have a: "accepted r" unfolding accepted_def fx f by simp
    have tw: "ok = js" unfolding ok_def by (rule find_None_takeWhile [OF f])
    have "levelValues (config (snd r)) (digits j) = Some (parsedLevel form j)"
      if "1 \<le> j \<and> j \<le> 10" for j
    proof -
      have "j \<in> set ok" unfolding tw js_def using that by auto
      then show ?thesis unfolding lv by (rule foldl_storeLevel_hit)
    qed
    with a show ?thesis by blast
  qed
  show ?thesis
    unfolding js_def [symmetric] using A B C by blast
qed


lemma sample_parsed:
  "parsedLevel sampleForm 1 = 5" "parsedLevel sampleForm 2 = 1000000000000"
  "parsedLevel sampleForm (Suc 0) = 5"
  by (simp_all add: parsedLevel_def sampleForm_def parseFormattedNumber_def parseInt_def
      isDecimalDigit_def isWhiteSpace_def isRadixDigit_def digitValue_def mathValue_def Let_def)

lemma levels_list: "[1..<11] = [1, 2, 3, 4, 5, 6, 7, 8, 9, 10 :: nat]"
  by code_simp

lemma sample_first_invalid: "find (invalidLevel sampleForm) [1..<11] = Some 2"
  unfolding levels_list by (simp add: invalidLevel_def sample_parsed)

lemma sample_level_keys: "digits 1 = ''1''" "digits 2 = ''2''" "digits (Suc 0) = ''1''"
  by (simp_all add: digits.simps digitChar_simps)

lemma sample_first_bad:
  "parsedLevel sampleFormFirstBad 1 = 1000000000000"
  "parsedLevel sampleFormFirstBad (Suc 0) = 1000000000000"
  by (simp_all add: parsedLevel_def sampleFormFirstBad_def parseFormattedNumber_def parseInt_def
      isDecimalDigit_def isWhiteSpace_def isRadixDigit_def digitValue_def mathValue_def Let_def)

text \<open>
  C5. A submission with a level out of range is refused: the error is shown and nothing is
  saved. The claim adds that \<^verbatim>\<open>config.levelValues\<close> is not updated by such a call, and
  there the script falls short, because the check of a level runs in the same round of the
  loop that stores the level. On the sample form, whose level 2 is out of range, the call
  is refused and yet level 1 has changed from 500,000 to 5; on the form whose level 1 is
  out of range the table is as before.
\<close>

theorem saveConfig_partial_update:
  "invalidLevel sampleForm 2
   \<and> fst (saveConfig sampleForm sampleApp) = [ShowMessage (invalidLevelMessage 2) ''error'']
   \<and> levelValues (config sampleApp) ''1'' = Some 500000
   \<and> levelValues (config (snd (saveConfig sampleForm sampleApp))) ''1'' = Some 5
   \<and> levelValues (config (snd (saveConfig sampleForm sampleApp))) \<noteq> levelValues (config sampleApp)
   \<and> invalidLevel sampleFormFirstBad 1
   \<and> fst (saveConfig sampleFormFirstBad sampleApp) =
       [ShowMessage (invalidLevelMessage 1) ''error'']
   \<and> levelValues (config (snd (saveConfig sampleFormFirstBad sampleApp))) =
       levelValues (config sampleApp)"
proof -
  have i: "invalidLevel sampleForm 2" by (simp add: invalidLevel_def sample_parsed)
  have tw: "takeWhile (\<lambda>j. \<not> invalidLevel sampleForm j) [1..<11] = [1]"
    unfolding levels_list by (simp add: invalidLevel_def sample_parsed)
  have e: "fst (saveConfig sampleForm sampleApp) = [ShowMessage (invalidLevelMessage 2) ''error'']"
    unfolding saveConfig_facts(2) [of sampleForm sampleApp] sample_first_invalid by simp
  have old: "levelValues (config sampleApp) ''1'' = Some 500000"
    by (simp add: sampleApp_def sampleConfig_def)
  have new: "levelValues (config (snd (saveConfig sampleForm sampleApp))) ''1'' = Some 5"
    unfolding saveConfig_facts(1) [of sampleForm sampleApp] tw
    by (simp add: storeLevel_apply sample_level_keys sample_parsed)
  from old new have ne: "levelValues (config (snd (saveConfig sampleForm sampleApp))) \<noteq>
      levelValues (config sampleApp)" by (metis option.inject numeral_eq_iff semiring_norm(89) num.distinct)
  have i1: "invalidLevel sampleFormFirstBad 1" by (simp add: invalidLevel_def sample_first_bad)
  have f1: "find (invalidLevel sampleFormFirstBad) [1..<11] = Some 1"
    unfolding levels_list by (simp add: invalidLevel_def sample_first_bad)
  have tw1: "takeWhile (\<lambda>j. \<not> invalidLevel sampleFormFirstBad j) [1..<11] = []"
    unfolding levels_list by (simp add: invalidLevel_def sample_first_bad)
  have e1: "fst (saveConfig sampleFormFirstBad sampleApp) =
      [ShowMessage (invalidLevelMessage 1) ''error'']"
    unfolding saveConfig_facts(2) [of sampleFormFirstBad sampleApp] f1 by simp
  have same: "levelValues (config (snd (saveConfig sampleFormFirstBad sampleApp))) =
      levelValues (config sampleApp)"
    unfolding saveConfig_facts(1) [of sampleFormFirstBad sampleApp] tw1 by simp
  from i e old new ne i1 e1 same show ?thesis by blast
qed

section \<open>Adding a site\<close>

text \<open>
  With a level field that \<^verbatim>\<open>parseInt\<close> reads as a number, \<^verbatim>\<open>addSite\<close> does what its three
  checks announce: a submission with an empty name, a level below 1 or above 10, or no
  checked participant leaves \<^verbatim>\<open>appData\<close> as it is, and any other submission appends one
  site, which satisfies the invariant.
\<close>

lemma addSite_numeric_level:
  assumes "parseInt (siteLevel form) = Num k"
  shows "(trim (siteName form) = [] \<or> k < 1 \<or> 10 < k \<or> checkedParticipants form = [] \<longrightarrow>
            snd (addSite now form app) = app \<and> snd (addSite_legacy now form app) = app)
       \<and> (\<not> (trim (siteName form) = [] \<or> k < 1 \<or> 10 < k \<or> checkedParticipants form = []) \<longrightarrow>
            (\<exists>s. sites (snd (addSite now form app)) = sites app @ [s] \<and> siteInvariant s)
          \<and> (\<exists>s. sites (snd (addSite_legacy now form app)) = sites app @ [s] \<and> siteInvariant s))"
  using assms by (auto simp add: addSite_def addSite_legacy_def Let_def siteInvariant_def)

text \<open>
  C1. The level check does not catch \<^verbatim>\<open>NaN\<close>: both comparisons of \<^verbatim>\<open>level < 1 || level > 10\<close>
  are false for it. With a name, one checked participant and a level field that holds no
  number (here the empty text), both scripts store a site whose level is \<^verbatim>\<open>NaN\<close>, which is
  not an integer from 1 to 10.
\<close>

theorem addSite_stores_NaN_level:
  "sites (snd (addSite 1700000000003
       \<lparr>siteName = ''Gate'', siteLevel = [], checkedParticipants = [''u1'']\<rparr> sampleApp)) =
     sampleSites @ [\<lparr>site.id' = 1700000000003, name = ''Gate'', level = NaN,
                     participants = [IdStr ''u1'']\<rparr>]
   \<and> \<not> siteInvariant (last (sites (snd (addSite 1700000000003
       \<lparr>siteName = ''Gate'', siteLevel = [], checkedParticipants = [''u1'']\<rparr> sampleApp))))
   \<and> sites (snd (addSite_legacy 1700000000003
       \<lparr>siteName = ''Gate'', siteLevel = [], checkedParticipants = [''17'']\<rparr> sampleApp)) =
     sampleSites @ [\<lparr>site.id' = 1700000000003, name = ''Gate'', level = NaN,
                     participants = [IdNum (Num 17)]\<rparr>]"
  by (simp add: addSite_def addSite_legacy_def parseInt_def trim_def isWhiteSpace_def
      sampleApp_def siteInvariant_def isRadixDigit_def digitValue_def mathValue_def Let_def)

end
